theory Spec2Isabelle
  imports Main "HOL-Library.Sublist"
begin

section \<open>Python text: character classes, substring test, splitlines, int()\<close>

text \<open>
  A Python \<open>str\<close> is modelled as a \<open>string\<close>. The character classes below are the
  ones of Python's \<open>re\<close> module on ASCII text, which is what the device's command line
  prints: \<open>[0-9]\<close> and \<open>\d\<close> are the ten digits, \<open>\w\<close> is a letter, a digit or the
  underscore, \<open>\W\<close> is every other character (the newline included), \<open>\s\<close> is white
  space (the space, \<open>\t\<close> to \<open>\r\<close>, and the separators \<open>\x1c\<close> to \<open>\x1f\<close>), and \<open>.\<close>
  is every character but the newline.
\<close>

definition char_code :: "char \<Rightarrow> nat" where
  "char_code c = of_char c"

definition is_digit :: "char \<Rightarrow> bool" where
  "is_digit c = (48 \<le> char_code c \<and> char_code c \<le> 57)"

definition is_word :: "char \<Rightarrow> bool" where
  "is_word c =
     (is_digit c \<or> (65 \<le> char_code c \<and> char_code c \<le> 90)
      \<or> (97 \<le> char_code c \<and> char_code c \<le> 122) \<or> c = CHR ''_'')"

definition is_nonword :: "char \<Rightarrow> bool" where
  "is_nonword c = (\<not> is_word c)"


definition is_dot :: "char \<Rightarrow> bool" where
  "is_dot c = (c \<noteq> CHR ''\<newline>'')"

text \<open>\<open>needle in haystack\<close> on two strings: the substring test.\<close>

fun py_in :: "string \<Rightarrow> string \<Rightarrow> bool" where
  "py_in needle [] = (needle = [])"
| "py_in needle (c # cs) = (prefix needle (c # cs) \<or> py_in needle cs)"

text \<open>
  \<open>str.splitlines()\<close> on ASCII text: a line ends at \<open>\n\<close>, \<open>\r\<close>, \<open>\r\n\<close>,
  \<open>\v\<close>, \<open>\f\<close>, \<open>\x1c\<close>, \<open>\x1d\<close> or \<open>\x1e\<close>; the line breaks are dropped, and
  a last line with no line break is kept when it is not empty.
\<close>

definition is_linebreak :: "char \<Rightarrow> bool" where
  "is_linebreak c =
     ((10 \<le> char_code c \<and> char_code c \<le> 13) \<or> (28 \<le> char_code c \<and> char_code c \<le> 30))"

fun splitlines_from :: "string \<Rightarrow> string \<Rightarrow> string list" where
  "splitlines_from cur [] = (if cur = [] then [] else [cur])"
| "splitlines_from cur [c] = (if is_linebreak c then [cur] else [cur @ [c]])"
| "splitlines_from cur (c # d # cs) =
     (if c = CHR 0x0D \<and> d = CHR ''\<newline>'' then cur # splitlines_from [] cs
      else if is_linebreak c then cur # splitlines_from [] (d # cs)
      else splitlines_from (cur @ [c]) (d # cs))"

definition splitlines :: "string \<Rightarrow> string list" where
  "splitlines s = splitlines_from [] s"

text \<open>
  \<open>int(text)\<close> for the texts the log pattern's first group can hold: an optional
  \<open>-\<close> and one or more digits. \<open>None\<close> is Python's ValueError. (Python's \<open>int\<close> reads
  a few more spellings, such as a leading \<open>+\<close>; the pattern never yields one.)
\<close>

fun digits_value :: "nat \<Rightarrow> string \<Rightarrow> nat" where
  "digits_value acc [] = acc"
| "digits_value acc (c # cs) = digits_value (10 * acc + (char_code c - 48)) cs"

definition py_int :: "string \<Rightarrow> int option" where
  "py_int t =
     (case t of
        [] \<Rightarrow> None
      | c # cs \<Rightarrow>
          if c = CHR ''-'' then
            (if cs \<noteq> [] \<and> list_all is_digit cs then Some (- int (digits_value 0 cs)) else None)
          else if list_all is_digit (c # cs) then Some (int (digits_value 0 (c # cs)))
          else None)"

section \<open>The log pattern \<open>(-?[0-9]\d*):\W+(.*)\<close>\<close>

text \<open>
  The pattern is embedded with matcher combinators in continuation-passing style, which is
  how a backtracking engine such as Python's reads it: a matcher gets the input that is
  left and a continuation for the rest of the pattern, and an optional or repeated part
  tries its longest alternative first and falls back to a shorter one when the
  continuation fails.
\<close>

definition lit :: "char \<Rightarrow> string \<Rightarrow> (string \<Rightarrow> 'a option) \<Rightarrow> 'a option" where
  "lit c inp k = (case inp of [] \<Rightarrow> None | x # xs \<Rightarrow> if x = c then k xs else None)"

definition cls :: "(char \<Rightarrow> bool) \<Rightarrow> string \<Rightarrow> (string \<Rightarrow> 'a option) \<Rightarrow> 'a option" where
  "cls p inp k = (case inp of [] \<Rightarrow> None | x # xs \<Rightarrow> if p x then k xs else None)"

definition opt_lit :: "char \<Rightarrow> string \<Rightarrow> (string \<Rightarrow> 'a option) \<Rightarrow> 'a option" where
  "opt_lit c inp k = (case lit c inp k of Some r \<Rightarrow> Some r | None \<Rightarrow> k inp)"

fun star_cls :: "(char \<Rightarrow> bool) \<Rightarrow> string \<Rightarrow> (string \<Rightarrow> 'a option) \<Rightarrow> 'a option" where
  "star_cls p [] k = k []"
| "star_cls p (x # xs) k =
     (if p x then (case star_cls p xs k of Some r \<Rightarrow> Some r | None \<Rightarrow> k (x # xs))
      else k (x # xs))"

definition plus_cls :: "(char \<Rightarrow> bool) \<Rightarrow> string \<Rightarrow> (string \<Rightarrow> 'a option) \<Rightarrow> 'a option" where
  "plus_cls p inp k = cls p inp (\<lambda>r. star_cls p r k)"

text \<open>The text a group matched: what the input lost between the group's two ends.\<close>

definition consumed :: "string \<Rightarrow> string \<Rightarrow> string" where
  "consumed before after = take (length before - length after) before"

text \<open>
  \<open>regexp.match(line)\<close>: the pattern is tried at the start of the line only and need not
  reach its end. The result is \<open>(group(1), group(2))\<close>, or \<open>None\<close> for no match.
\<close>

definition regexp_match :: "string \<Rightarrow> (string \<times> string) option" where
  "regexp_match line =
     opt_lit CHR ''-'' line (\<lambda>r1.
       cls is_digit r1 (\<lambda>r2.
         star_cls is_digit r2 (\<lambda>r3.
           lit CHR '':'' r3 (\<lambda>r4.
             plus_cls is_nonword r4 (\<lambda>r5.
               star_cls is_dot r5 (\<lambda>r6.
                 Some (consumed line r3, consumed r5 r6)))))))"

section \<open>\<open>FortiOS._parse_batch_lastlog\<close>\<close>

text \<open>
  The loop over the log's lines, with the list \<open>wrong_commands\<close> it appends to. The status
  code is kept as \<open>result.group(1)\<close>, a text; \<open>int(status_code)\<close> cannot fail on a text
  that the first group matched, and the branch for its ValueError drops the line.
\<close>

fun parse_lines :: "(string \<times> string) list \<Rightarrow> string list \<Rightarrow> (string \<times> string) list" where
  "parse_lines wrong_commands [] = wrong_commands"
| "parse_lines wrong_commands (line # rest) =
     (case regexp_match line of
        None \<Rightarrow> parse_lines wrong_commands rest
      | Some (status_code, command) \<Rightarrow>
          (case py_int status_code of
             None \<Rightarrow> parse_lines wrong_commands rest
           | Some n \<Rightarrow>
               if n < 0 then parse_lines (wrong_commands @ [(status_code, command)]) rest
               else parse_lines wrong_commands rest))"

definition priv_parse_batch_lastlog :: "string list \<Rightarrow> (string \<times> string) list" where
  "priv_parse_batch_lastlog last_log = parse_lines [] last_log"

section \<open>Names, values and exceptions\<close>

text \<open>
  A Python value, as far as the constructor's arguments need one; \<open>PObj n\<close> is the object
  that the module-level or built-in name \<open>n\<close> is bound to.
\<close>

datatype pyval = PNone | PStr string | PInt int | PObj string

text \<open>
  The exceptions of the module. \<open>TransportError\<close> is any exception that the session's
  \<open>send_command\<close> raises. \<open>CommandExecutionException\<close> and \<open>FailedCommit\<close> are the
  classes of \<open>pyFG.exceptions\<close> that the module's \<open>raise\<close> statements name.
\<close>

datatype py_exc =
    NameError string
  | AttributeError string
  | ValueError string
  | TransportError string
  | CommandExecutionException string
  | FailedCommit "(string \<times> string) list"

text \<open>
  The names bound at the module level of \<open>fortios.py\<close> (lines 2 to 18: its imports, the
  logger and the class, with the names every module has), and Python 3's built-in names.
  A name in a function body resolves in the function's local names, then here.
\<close>

definition module_names :: "string list" where
  "module_names =
     [''unicode_literals'', ''FortiConfig'', ''ConnectHandler'', ''re'', ''os'', ''io'',
      ''Differ'', ''logging'', ''logger'', ''FortiOS'',
      ''__name__'', ''__doc__'', ''__package__'', ''__loader__'', ''__spec__'', ''__file__'',
      ''__cached__'', ''__builtins__'']"

definition builtin_names :: "string list" where
  "builtin_names =
     [''abs'', ''aiter'', ''all'', ''anext'', ''any'', ''ascii'', ''bin'', ''bool'',
      ''breakpoint'', ''bytearray'', ''bytes'', ''callable'', ''chr'', ''classmethod'',
      ''compile'', ''complex'', ''copyright'', ''credits'', ''delattr'', ''dict'', ''dir'',
      ''divmod'', ''enumerate'', ''eval'', ''exec'', ''exit'', ''filter'', ''float'',
      ''format'', ''frozenset'', ''getattr'', ''globals'', ''hasattr'', ''hash'', ''help'',
      ''hex'', ''id'', ''input'', ''int'', ''isinstance'', ''issubclass'', ''iter'', ''len'',
      ''license'', ''list'', ''locals'', ''map'', ''max'', ''memoryview'', ''min'', ''next'',
      ''object'', ''oct'', ''open'', ''ord'', ''pow'', ''print'', ''property'', ''quit'',
      ''range'', ''repr'', ''reversed'', ''round'', ''set'', ''setattr'', ''slice'',
      ''sorted'', ''staticmethod'', ''str'', ''sum'', ''super'', ''tuple'', ''type'', ''vars'',
      ''zip'', ''__import__'', ''__build_class__'', ''__debug__'',
      ''None'', ''True'', ''False'', ''Ellipsis'', ''NotImplemented'',
      ''BaseException'', ''BaseExceptionGroup'', ''Exception'', ''ExceptionGroup'',
      ''ArithmeticError'', ''AssertionError'', ''AttributeError'', ''BlockingIOError'',
      ''BrokenPipeError'', ''BufferError'', ''BytesWarning'', ''ChildProcessError'',
      ''ConnectionAbortedError'', ''ConnectionError'', ''ConnectionRefusedError'',
      ''ConnectionResetError'', ''DeprecationWarning'', ''EOFError'', ''EncodingWarning'',
      ''EnvironmentError'', ''FileExistsError'', ''FileNotFoundError'',
      ''FloatingPointError'', ''FutureWarning'', ''GeneratorExit'', ''IOError'',
      ''ImportError'', ''ImportWarning'', ''IndentationError'', ''IndexError'',
      ''InterruptedError'', ''IsADirectoryError'', ''KeyError'', ''KeyboardInterrupt'',
      ''LookupError'', ''MemoryError'', ''ModuleNotFoundError'', ''NameError'',
      ''NotADirectoryError'', ''NotImplementedError'', ''OSError'', ''OverflowError'',
      ''PendingDeprecationWarning'', ''PermissionError'', ''ProcessLookupError'',
      ''RecursionError'', ''ReferenceError'', ''ResourceWarning'', ''RuntimeError'',
      ''RuntimeWarning'', ''StopAsyncIteration'', ''StopIteration'', ''SyntaxError'',
      ''SyntaxWarning'', ''SystemError'', ''SystemExit'', ''TabError'', ''TimeoutError'',
      ''TypeError'', ''UnboundLocalError'', ''UnicodeDecodeError'', ''UnicodeEncodeError'',
      ''UnicodeError'', ''UnicodeTranslateError'', ''UnicodeWarning'', ''UserWarning'',
      ''ValueError'', ''Warning'', ''ZeroDivisionError'']"

definition resolve :: "(string \<times> pyval) list \<Rightarrow> string \<Rightarrow> pyval option" where
  "resolve local_names n =
     (case map_of local_names n of
        Some v \<Rightarrow> Some v
      | None \<Rightarrow> if n \<in> set module_names \<or> n \<in> set builtin_names then Some (PObj n) else None)"

section \<open>The device object and what it talks to\<close>

text \<open>
  The argument \<open>config_text\<close> of \<open>load_config\<close>: a text from the caller, or the list of
  lines that \<open>execute_command\<close> returns.
\<close>

datatype pytext = Str string | Lines "string list"

text \<open>
  The two collaborators whose code is outside \<open>fortios.py\<close> are parameters of the model.
  The session (netmiko's connection) is a state machine over a device state \<open>'d\<close>:
  \<open>send_command\<close> answers a command with the output (\<open>Inr\<close>) or raises (\<open>Inl\<close>, with the
  message), and leaves the device in a new state. \<open>pyFG.forticonfig.FortiConfig\<close> is a type
  \<open>'c\<close> of configuration objects with its constructor and the methods that \<open>fortios.py\<close>
  calls; a method that changes its object returns the changed object, and each is taken
  to return normally and to change no other object.
\<close>

record ('d, 'c) externals =
  send_command :: "'d \<Rightarrow> string \<Rightarrow> (string + string) \<times> 'd"
  FortiConfig :: "string \<Rightarrow> string option \<Rightarrow> 'c"
  parse_config_output :: "'c \<Rightarrow> pytext \<Rightarrow> 'c"
  add_path :: "'c \<Rightarrow> string \<Rightarrow> 'c"
  get_paths :: "'c \<Rightarrow> string list"
  set_name :: "'c \<Rightarrow> string \<Rightarrow> 'c"
  fc_compare_config :: "'c \<Rightarrow> 'c \<Rightarrow> string"

text \<open>
  The attributes of a \<open>FortiOS\<close> object, as \<open>__init__\<close> sets them. \<open>ssh\<close> is \<open>None\<close>
  until \<open>open\<close> connects; an open session is the device's state. \<open>sent\<close> is not an
  attribute: it records, oldest first, every command that was passed to
  \<open>ssh.send_command\<close>, so that what was sent to the device can be stated.
\<close>

record ('d, 'c) fortios =
  host :: pyval
  vdom :: "string option"
  original_config :: "'c option"
  running_config :: 'c
  candidate_config :: 'c
  ssh :: "'d option"
  username :: string
  password :: string
  device_type :: string
  timeout :: int
  sent :: "string list"

type_synonym ('a, 'd, 'c) result = "(py_exc + 'a) \<times> ('d, 'c) fortios"

section \<open>\<open>FortiOS.__init__\<close> (lines 20 to 57)\<close>

definition init_locals ::
  "string \<Rightarrow> string \<Rightarrow> string \<Rightarrow> string option \<Rightarrow> string \<Rightarrow> int \<Rightarrow> (string \<times> pyval) list" where
  "init_locals hostname usernm passwd vd devtype tmo =
     [(''self'', PObj ''self''), (''hostname'', PStr hostname), (''username'', PStr usernm),
      (''password'', PStr passwd), (''vdom'', (case vd of None \<Rightarrow> PNone | Some v \<Rightarrow> PStr v)),
      (''device_type'', PStr devtype), (''timeout'', PInt tmo)]"

text \<open>
  The first statement, \<open>self.host = host\<close>, reads the name \<open>host\<close>; the other assignments
  follow when it resolves.
\<close>

definition FortiOS_init ::
  "('d, 'c) externals \<Rightarrow> string \<Rightarrow> string \<Rightarrow> string \<Rightarrow> string option \<Rightarrow> string \<Rightarrow> int
     \<Rightarrow> py_exc + ('d, 'c) fortios" where
  "FortiOS_init X hostname usernm passwd vd devtype tmo =
     (case resolve (init_locals hostname usernm passwd vd devtype tmo) ''host'' of
        None \<Rightarrow> Inl (NameError ''host'')
      | Some h \<Rightarrow>
          Inr \<lparr> host = h, vdom = vd, original_config = None,
                running_config = FortiConfig X ''running'' vd,
                candidate_config = FortiConfig X ''candidate'' vd,
                ssh = None, username = usernm, password = passwd,
                device_type = devtype, timeout = tmo, sent = [] \<rparr>)"

section \<open>\<open>execute_command\<close>, \<open>load_config\<close>, \<open>compare_config\<close>\<close>

text \<open>
  \<open>execute_command\<close> (lines 83 to 112). With no session, \<open>self.ssh.send_command\<close> is an
  attribute of \<open>None\<close>. The \<open>raise\<close> for an output with \<open>Command fail\<close> in it reads the
  name \<open>exceptions\<close> first.
\<close>

definition execute_locals :: "(string \<times> pyval) list" where
  "execute_locals =
     map (\<lambda>n. (n, PObj n)) [''self'', ''command'', ''err_msg'', ''output'', ''regex'', ''msg'']"

definition execute_command ::
  "('d, 'c) externals \<Rightarrow> string \<Rightarrow> ('d, 'c) fortios \<Rightarrow> (string list, 'd, 'c) result" where
  "execute_command X command s =
     (case ssh s of
        None \<Rightarrow> (Inl (AttributeError ''send_command''), s)
      | Some d \<Rightarrow>
          (case send_command X d command of
             (Inl m, d') \<Rightarrow>
               (Inl (TransportError m), s\<lparr>ssh := Some d', sent := sent s @ [command]\<rparr>)
           | (Inr output, d') \<Rightarrow>
               (if py_in ''Command fail'' output then
                  (case resolve execute_locals ''exceptions'' of
                     None \<Rightarrow> Inl (NameError ''exceptions'')
                   | Some m \<Rightarrow>
                       Inl (CommandExecutionException
                              (''Something happened when executing some commands on device''
                                @ '':\<newline>'' @ command @ ''\<newline>'' @ output)))
                else Inr (splitlines output),
                s\<lparr>ssh := Some d', sent := sent s @ [command]\<rparr>)))"

text \<open>\<open>load_config\<close> (lines 114 to 152).\<close>

definition load_command :: "string option \<Rightarrow> string \<Rightarrow> string" where
  "load_command vd path =
     (case vd of
        Some v \<Rightarrow>
          if v = ''global'' then ''conf global\<newline>show '' @ path @ ''\<newline>end''
          else ''conf vdom\<newline>edit '' @ v @ ''\<newline>show '' @ path @ ''\<newline>end''
      | None \<Rightarrow> ''show '' @ path)"

definition store_config ::
  "('d, 'c) externals \<Rightarrow> string \<Rightarrow> bool \<Rightarrow> bool \<Rightarrow> pytext \<Rightarrow> ('d, 'c) fortios \<Rightarrow> ('d, 'c) fortios" where
  "store_config X path in_candidate empty_candidate config_text s =
     (let s1 = (if \<not> in_candidate
                then s\<lparr>running_config :=
                        add_path X (parse_config_output X (running_config s) config_text) path\<rparr>
                else s)
      in if \<not> empty_candidate \<or> in_candidate
         then s1\<lparr>candidate_config :=
                   add_path X (parse_config_output X (candidate_config s1) config_text) path\<rparr>
         else s1)"

definition load_config ::
  "('d, 'c) externals \<Rightarrow> string \<Rightarrow> bool \<Rightarrow> bool \<Rightarrow> pytext option \<Rightarrow> ('d, 'c) fortios
     \<Rightarrow> (unit, 'd, 'c) result" where
  "load_config X path in_candidate empty_candidate config_text s =
     (case config_text of
        None \<Rightarrow>
          (case execute_command X (load_command (vdom s) path) s of
             (Inl e, s1) \<Rightarrow> (Inl e, s1)
           | (Inr out, s1) \<Rightarrow>
               (Inr (), store_config X path in_candidate empty_candidate (Lines out) s1))
      | Some t \<Rightarrow> (Inr (), store_config X path in_candidate empty_candidate t s))"

text \<open>
  \<open>compare_config\<close> (lines 154 to 185) with \<open>text=False\<close>, which is how the commit and the
  rollback call it: the commands that lead from the running config to \<open>other\<close>, and to the
  candidate config when \<open>other\<close> is \<open>None\<close>.
\<close>

definition compare_config ::
  "('d, 'c) externals \<Rightarrow> 'c option \<Rightarrow> ('d, 'c) fortios \<Rightarrow> string" where
  "compare_config X other s =
     fc_compare_config X (running_config s)
       (case other of None \<Rightarrow> candidate_config s | Some c \<Rightarrow> c)"

section \<open>\<open>_reload_config\<close> (lines 304 to 324)\<close>

text \<open>The loop \<open>for path in paths: self.load_config(path, empty_candidate=True)\<close>.\<close>

fun load_paths ::
  "('d, 'c) externals \<Rightarrow> string list \<Rightarrow> ('d, 'c) fortios \<Rightarrow> (unit, 'd, 'c) result" where
  "load_paths X [] s = (Inr (), s)"
| "load_paths X (path # paths) s =
     (case load_config X path False True None s of
        (Inl e, s1) \<Rightarrow> (Inl e, s1)
      | (Inr u, s1) \<Rightarrow> load_paths X paths s1)"

text \<open>
  With \<open>reload_original_config\<close>, \<open>original_config\<close> becomes the object that
  \<open>running_config\<close> is, and \<open>set_name\<close> renames that one object, so both attributes see the
  new name until \<open>running_config\<close> is bound to a fresh \<open>FortiConfig\<close>. The paths are read
  before that.
\<close>

definition priv_reload_config ::
  "('d, 'c) externals \<Rightarrow> bool \<Rightarrow> ('d, 'c) fortios \<Rightarrow> (unit, 'd, 'c) result" where
  "priv_reload_config X reload_original_config s =
     (let s1 = (if reload_original_config
                then s\<lparr>original_config := Some (set_name X (running_config s) ''original''),
                       running_config := set_name X (running_config s) ''original''\<rparr>
                else s);
          paths = get_paths X (running_config s1);
          s2 = s1\<lparr>running_config := FortiConfig X ''running'' (vdom s1)\<rparr>
      in load_paths X paths s2)"

section \<open>\<open>_commit\<close> and \<open>rollback\<close> (lines 208 to 278)\<close>

text \<open>
  The inner function \<open>_execute\<close> (lines 216 to 238). \<open>batch_prefix\<close> is its \<open>pre\<close>,
  \<open>batch_vdom\<close> its \<open>config_vdom\<close>, \<open>batch_script\<close> its \<open>cmd\<close>; the test on the vdom is
  Python's \<open>not 'global' in self.vdom\<close>, the substring test.
\<close>

definition batch_prefix :: "string option \<Rightarrow> string" where
  "batch_prefix vd = (case vd of None \<Rightarrow> [] | Some v \<Rightarrow> ''conf global\<newline>    '')"

definition batch_vdom :: "string option \<Rightarrow> string" where
  "batch_vdom vd =
     (case vd of
        None \<Rightarrow> []
      | Some v \<Rightarrow>
          if \<not> py_in ''global'' v then ''conf vdom\<newline>  edit '' @ v @ ''\<newline>'' else [])"

definition batch_script :: "string option \<Rightarrow> string \<Rightarrow> string" where
  "batch_script vd config_text =
     batch_prefix vd @ ''execute batch start\<newline>'' @ batch_vdom vd @ config_text
       @ ''\<newline>execute batch end\<newline>''"

definition lastlog_command :: "string option \<Rightarrow> string" where
  "lastlog_command vd = batch_prefix vd @ ''execute batch lastlog''"

definition priv_execute ::
  "('d, 'c) externals \<Rightarrow> string option \<Rightarrow> ('d, 'c) fortios
     \<Rightarrow> ((string \<times> string) list, 'd, 'c) result" where
  "priv_execute X config_text s =
     (let text = (case config_text of None \<Rightarrow> compare_config X None s | Some t \<Rightarrow> t)
      in case execute_command X (batch_script (vdom s) text) s of
           (Inl e, s1) \<Rightarrow> (Inl e, s1)
         | (Inr out, s1) \<Rightarrow>
             (case execute_command X (lastlog_command (vdom s1)) s1 of
                (Inl e, s2) \<Rightarrow> (Inl e, s2)
              | (Inr last_log, s2) \<Rightarrow> (Inr (priv_parse_batch_lastlog last_log), s2)))"

text \<open>
  The retry loop (lines 246 to 256). \<open>retry_scan\<close> is the inner \<open>for wc in wrong_commands\<close>
  over the entries that are left to look at: at the first entry whose code is a retry
  code it sets \<open>config_text\<close> when that is still \<open>None\<close>, runs the batch again, reloads
  the running config and breaks. It returns the loop's two variables, \<open>wrong_commands\<close>
  and \<open>config_text\<close>.
\<close>

definition retry_codes :: "int list" where
  "retry_codes = [- 3, - 23]"

fun retry_scan ::
  "('d, 'c) externals \<Rightarrow> (string \<times> string) list \<Rightarrow> (string \<times> string) list \<Rightarrow> string option
     \<Rightarrow> ('d, 'c) fortios \<Rightarrow> ((string \<times> string) list \<times> string option, 'd, 'c) result" where
  "retry_scan X [] wrong_commands config_text s = (Inr (wrong_commands, config_text), s)"
| "retry_scan X (wc # rest) wrong_commands config_text s =
     (case py_int (fst wc) of
        None \<Rightarrow> (Inl (ValueError (fst wc)), s)
      | Some n \<Rightarrow>
          if n \<in> set retry_codes then
            (let config_text' =
                   (case config_text of
                      None \<Rightarrow> Some (compare_config X None s)
                    | Some t \<Rightarrow> Some t)
             in case priv_execute X config_text' s of
                  (Inl e, s1) \<Rightarrow> (Inl e, s1)
                | (Inr wrong_commands', s1) \<Rightarrow>
                    (case priv_reload_config X False s1 of
                       (Inl e, s2) \<Rightarrow> (Inl e, s2)
                     | (Inr u, s2) \<Rightarrow> (Inr (wrong_commands', config_text'), s2)))
          else retry_scan X rest wrong_commands config_text s)"

function retry_loop ::
  "('d, 'c) externals \<Rightarrow> int \<Rightarrow> (string \<times> string) list \<Rightarrow> string option
     \<Rightarrow> ('d, 'c) fortios \<Rightarrow> ((string \<times> string) list, 'd, 'c) result" where
  "retry_loop X retries wrong_commands config_text s =
     (if retries > 0 then
        (case retry_scan X wrong_commands wrong_commands config_text s of
           (Inl e, s1) \<Rightarrow> (Inl e, s1)
         | (Inr (wrong_commands', config_text'), s1) \<Rightarrow>
             retry_loop X (retries - 1) wrong_commands' config_text' s1)
      else (Inr wrong_commands, s))"
  by pat_completeness auto
termination
  by (relation "measure (\<lambda>(X, retries, wrong_commands, config_text, s). nat retries)") auto

text \<open>
  Lines 242 to 256 of \<open>_commit\<close>: the first attempt, the reload of the running config, and
  the retry loop with \<open>retries = 5\<close>. The result is \<open>wrong_commands\<close> as line 258 finds it.
\<close>

definition commit_attempts ::
  "('d, 'c) externals \<Rightarrow> string option \<Rightarrow> bool \<Rightarrow> ('d, 'c) fortios
     \<Rightarrow> ((string \<times> string) list, 'd, 'c) result" where
  "commit_attempts X config_text reload_original_config s =
     (case priv_execute X config_text s of
        (Inl e, s1) \<Rightarrow> (Inl e, s1)
      | (Inr wrong_commands, s1) \<Rightarrow>
          (case priv_reload_config X reload_original_config s1 of
             (Inl e, s2) \<Rightarrow> (Inl e, s2)
           | (Inr u, s2) \<Rightarrow> retry_loop X 5 wrong_commands config_text s2))"

text \<open>
  Lines 266 and 267: \<open>if exit_code < 0: raise exceptions.FailedCommit(wrong_commands)\<close>.
  The \<open>raise\<close> reads the name \<open>exceptions\<close> first, among the local names of \<open>_commit\<close> and
  then the module's.
\<close>

definition commit_locals :: "(string \<times> pyval) list" where
  "commit_locals =
     map (\<lambda>n. (n, PObj n))
       [''self'', ''config_text'', ''force'', ''reload_original_config'', ''_execute'',
        ''wrong_commands'', ''retry_codes'', ''retries'', ''wc'', ''exit_code'']"

definition raise_failed ::
  "int \<Rightarrow> (string \<times> string) list \<Rightarrow> ('d, 'c) fortios \<Rightarrow> (unit, 'd, 'c) result" where
  "raise_failed exit_code wrong_commands s =
     (if exit_code < 0 then
        (case resolve commit_locals ''exceptions'' of
           None \<Rightarrow> (Inl (NameError ''exceptions''), s)
         | Some m \<Rightarrow> (Inl (FailedCommit wrong_commands), s))
      else (Inr (), s))"

text \<open>
  \<open>_commit\<close> and \<open>rollback\<close> call each other: \<open>_commit\<close> rolls back when \<open>force\<close> is false,
  and \<open>rollback\<close> commits with \<open>force=True\<close>, so the calls nest two deep at most.
\<close>

function priv_commit ::
  "('d, 'c) externals \<Rightarrow> string option \<Rightarrow> bool \<Rightarrow> bool \<Rightarrow> ('d, 'c) fortios
     \<Rightarrow> (unit, 'd, 'c) result"
and rollback :: "('d, 'c) externals \<Rightarrow> ('d, 'c) fortios \<Rightarrow> (unit, 'd, 'c) result" where
  "priv_commit X config_text force reload_original_config s =
     (case commit_attempts X config_text reload_original_config s of
        (Inl e, s1) \<Rightarrow> (Inl e, s1)
      | (Inr wrong_commands, s1) \<Rightarrow>
          if length wrong_commands > 0 then
            (if \<not> force then
               (case rollback X s1 of
                  (Inl e, s2) \<Rightarrow> (Inl e, s2)
                | (Inr u, s2) \<Rightarrow> raise_failed (- 1) wrong_commands s2)
             else raise_failed (- 2) wrong_commands s1)
          else (Inr (), s1))"
| "rollback X s =
     (let config_text = compare_config X (original_config s) s
      in if length config_text > 0 then priv_commit X (Some config_text) True False s
         else (Inr (), s))"
  by pat_completeness auto
termination
  by (relation "measure (\<lambda>a. case a of
                   Inl (X, config_text, force, r, s) \<Rightarrow> (if force then 0 else 2)
                 | Inr (X, s) \<Rightarrow> Suc 0)") auto

text \<open>\<open>commit\<close> (lines 187 to 206): \<open>self._commit(config_text, force)\<close>.\<close>

definition commit ::
  "('d, 'c) externals \<Rightarrow> string option \<Rightarrow> bool \<Rightarrow> ('d, 'c) fortios \<Rightarrow> (unit, 'd, 'c) result" where
  "commit X config_text force s = priv_commit X config_text force True s"

section \<open>A small instance of the collaborators\<close>

text \<open>
  To run the model on concrete inputs: a configuration object is its name, its paths and
  its lines; parsing adds the lines it is given; the commands that lead from one
  configuration to another are the lines of the other that the first does not have. The
  scripted device answers the commands it gets with the outputs of a list, in turn; the
  constant device answers every command with the same output.
\<close>

type_synonym demo_config = "string \<times> string list \<times> string list"

fun join_lines :: "string list \<Rightarrow> string" where
  "join_lines [] = []"
| "join_lines [l] = l"
| "join_lines (l # m # ls) = l @ ''\<newline>'' @ join_lines (m # ls)"

definition demo_parse :: "demo_config \<Rightarrow> pytext \<Rightarrow> demo_config" where
  "demo_parse c t =
     (case c of (n, ps, ls) \<Rightarrow> (n, ps, ls @ (case t of Lines l \<Rightarrow> l | Str x \<Rightarrow> splitlines x)))"

definition demo_add_path :: "demo_config \<Rightarrow> string \<Rightarrow> demo_config" where
  "demo_add_path c p = (case c of (n, ps, ls) \<Rightarrow> (n, (if p \<in> set ps then ps else ps @ [p]), ls))"

definition demo_diff :: "demo_config \<Rightarrow> demo_config \<Rightarrow> string" where
  "demo_diff c c' =
     (case c of (n, ps, ls) \<Rightarrow>
        (case c' of (n', ps', ls') \<Rightarrow> join_lines (filter (\<lambda>l. l \<notin> set ls) ls')))"

definition scripted_send :: "string list \<Rightarrow> string \<Rightarrow> (string + string) \<times> string list" where
  "scripted_send d command = (case d of [] \<Rightarrow> (Inr [], []) | r # rs \<Rightarrow> (Inr r, rs))"

definition demo_externals :: "(string list, demo_config) externals" where
  "demo_externals =
     \<lparr> send_command = scripted_send,
       FortiConfig = (\<lambda>n vd. (n, [], [])),
       parse_config_output = demo_parse,
       add_path = demo_add_path,
       get_paths = (\<lambda>c. fst (snd c)),
       set_name = (\<lambda>c n. (n, snd c)),
       fc_compare_config = demo_diff \<rparr>"

definition constant_externals :: "string \<Rightarrow> (unit, demo_config) externals" where
  "constant_externals out =
     \<lparr> send_command = (\<lambda>d command. (Inr out, d)),
       FortiConfig = (\<lambda>n vd. (n, [], [])),
       parse_config_output = demo_parse,
       add_path = demo_add_path,
       get_paths = (\<lambda>c. fst (snd c)),
       set_name = (\<lambda>c n. (n, snd c)),
       fc_compare_config = demo_diff \<rparr>"

text \<open>
  A device object with an open session \<open>d\<close>, the path \<open>system\<close> loaded, the running
  config \<open>running\<close> and the candidate config \<open>candidate\<close>.
\<close>

definition demo_device ::
  "'d \<Rightarrow> string option \<Rightarrow> string list \<Rightarrow> string list \<Rightarrow> ('d, demo_config) fortios" where
  "demo_device d vd running candidate =
     \<lparr> host = PStr ''fw'', vdom = vd, original_config = None,
       running_config = (''running'', [''system''], running),
       candidate_config = (''candidate'', [''system''], candidate),
       ssh = Some d, username = ''admin'', password = ''secret'',
       device_type = ''fortinet'', timeout = 60, sent = [] \<rparr>"

section \<open>What the statements below are about\<close>

text \<open>
  The lines of the log that yield an entry, read off the pattern without backtracking: an
  optional \<open>-\<close>, one or more digits, a colon, one or more non-word characters; the code
  is the sign and the digits, the command is what follows the longest run of non-word
  characters after the colon, up to a newline. A code is negative when it has the sign
  and a digit other than \<open>0\<close>.
\<close>

definition log_entry :: "string \<Rightarrow> (string \<times> string) option" where
  "log_entry line =
     (let sign = (if prefix ''-'' line then ''-'' else []);
          r = drop (length sign) line;
          ds = takeWhile is_digit r
      in case dropWhile is_digit r of
           [] \<Rightarrow> None
         | c # r' \<Rightarrow>
             if ds \<noteq> [] \<and> c = CHR '':'' \<and> takeWhile is_nonword r' \<noteq> []
             then Some (sign @ ds, takeWhile is_dot (dropWhile is_nonword r'))
             else None)"

definition negative_code :: "string \<Rightarrow> bool" where
  "negative_code c = (prefix ''-'' c \<and> list_ex (\<lambda>d. d \<noteq> CHR ''0'') (drop 1 c))"

definition failed_entry :: "string \<Rightarrow> (string \<times> string) option" where
  "failed_entry line =
     (case log_entry line of
        None \<Rightarrow> None
      | Some (c, t) \<Rightarrow> if negative_code c then Some (c, t) else None)"



text \<open>
  The batch scripts among the commands that were sent: a batch script starts with
  \<open>execute batch start\<close> after the scope prefix, which no other command of the module does.
\<close>

definition is_batch_script :: "string \<Rightarrow> bool" where
  "is_batch_script command =
     (prefix ''execute batch start\<newline>'' command
      \<or> prefix ''conf global\<newline>    execute batch start\<newline>'' command)"

definition batches_sent :: "('d, 'c) fortios \<Rightarrow> nat" where
  "batches_sent s = length (filter is_batch_script (sent s))"

text \<open>
  A device on which every attempt of a commit fails with one entry of code \<open>-3\<close>: from
  every state that \<open>I\<close> holds of, each command is answered without an exception and without
  \<open>Command fail\<close>, \<open>I\<close> holds again, and the answer to \<open>execute batch lastlog\<close> parses to
  exactly one entry, whose code reads \<open>-3\<close>.
\<close>

definition is_lastlog_command :: "string \<Rightarrow> bool" where
  "is_lastlog_command command =
     (command = ''execute batch lastlog''
      \<or> command = ''conf global\<newline>    execute batch lastlog'')"

definition fails_with_minus3 :: "('d, 'c) externals \<Rightarrow> ('d \<Rightarrow> bool) \<Rightarrow> bool" where
  "fails_with_minus3 X I =
     (\<forall>d command. I d \<longrightarrow>
        (\<exists>out d'. send_command X d command = (Inr out, d') \<and> I d'
           \<and> \<not> py_in ''Command fail'' out
           \<and> (is_lastlog_command command \<longrightarrow>
                (\<exists>c t. priv_parse_batch_lastlog (splitlines out) = [(c, t)]
                       \<and> py_int c = Some (- 3)))))"

text \<open>What lines 258 to 267 of \<open>_commit\<close> do with a list of failed commands that is not empty.\<close>

definition failure_handling ::
  "('d, 'c) externals \<Rightarrow> bool \<Rightarrow> (string \<times> string) list \<Rightarrow> ('d, 'c) fortios
     \<Rightarrow> (unit, 'd, 'c) result" where
  "failure_handling X force wrong_commands s =
     (if \<not> force then
        (case rollback X s of
           (Inl e, s2) \<Rightarrow> (Inl e, s2)
         | (Inr u, s2) \<Rightarrow> raise_failed (- 1) wrong_commands s2)
      else raise_failed (- 2) wrong_commands s)"

text \<open>The session is open, and \<open>I\<close> holds of the device's state.\<close>

definition session_in :: "('d \<Rightarrow> bool) \<Rightarrow> ('d, 'c) fortios \<Rightarrow> bool" where
  "session_in I s = (case ssh s of None \<Rightarrow> False | Some d \<Rightarrow> I d)"

fun is_FailedCommit :: "py_exc \<Rightarrow> bool" where
  "is_FailedCommit (FailedCommit w) = True"
| "is_FailedCommit e = False"

section \<open>Lemmas: the log pattern needs no backtracking\<close>

declare priv_commit.simps [simp del] rollback.simps [simp del] retry_loop.simps [simp del]

lemma star_cls_backtrack:
  "(\<And>y ys. p y \<Longrightarrow> k (y # ys) = None) \<Longrightarrow> star_cls p xs k = k (dropWhile p xs)"
  by (induction xs) (auto split: option.splits)

lemma star_cls_total:
  "(\<And>ys. k ys \<noteq> None) \<Longrightarrow> star_cls p xs k = k (dropWhile p xs)"
proof (induction xs)
  case Nil
  then show ?case by simp
next
  case (Cons x xs)
  show ?case
  proof (cases "p x")
    case True
    obtain r where "k (dropWhile p xs) = Some r"
      using Cons.prems [of "dropWhile p xs"] by auto
    with True Cons show ?thesis by simp
  next
    case False
    then show ?thesis by simp
  qed
qed

lemma consumed_append: "consumed (xs @ ys) ys = xs"
  by (simp add: consumed_def)

lemma consumed_dropWhile: "consumed xs (dropWhile p xs) = takeWhile p xs"
proof -
  have "consumed (takeWhile p xs @ dropWhile p xs) (dropWhile p xs) = takeWhile p xs"
    by (rule consumed_append)
  then show ?thesis by simp
qed

lemma not_digit_colon: "\<not> is_digit CHR '':''" "\<not> is_digit CHR ''-''"
  by (simp_all add: is_digit_def char_code_def)

lemma tail_match:
  "lit CHR '':'' r3 (\<lambda>r4. plus_cls is_nonword r4 (\<lambda>r5. star_cls is_dot r5 (\<lambda>r6. Some (g, consumed r5 r6))))
   = (case r3 of [] \<Rightarrow> None
      | c # r' \<Rightarrow> if c = CHR '':'' \<and> takeWhile is_nonword r' \<noteq> []
           then Some (g, takeWhile is_dot (dropWhile is_nonword r')) else None)"
proof -
  have dot: "\<And>r5. star_cls is_dot r5 (\<lambda>r6. Some (g, consumed r5 r6)) = Some (g, takeWhile is_dot r5)"
    by (simp add: star_cls_total consumed_dropWhile)
  have plus: "\<And>r4. plus_cls is_nonword r4 (\<lambda>r5. Some (g, takeWhile is_dot r5))
      = (if takeWhile is_nonword r4 \<noteq> [] then Some (g, takeWhile is_dot (dropWhile is_nonword r4)) else None)"
    by (auto simp: plus_cls_def cls_def star_cls_total split: list.splits)
  show ?thesis
    by (simp add: dot plus lit_def split: list.splits)
qed

lemma digits_match:
  assumes "\<And>y ys. is_digit y \<Longrightarrow> k (y # ys) = None"
  shows "cls is_digit r1 (\<lambda>r2. star_cls is_digit r2 k)
          = (if takeWhile is_digit r1 \<noteq> [] then k (dropWhile is_digit r1) else None)"
proof -
  have "star_cls is_digit r2 k = k (dropWhile is_digit r2)" for r2
    by (rule star_cls_backtrack) (rule assms)
  then show ?thesis
    by (auto simp: cls_def split: list.splits)
qed

lemma after_sign:
  assumes line: "line = sign @ r"
  shows "cls is_digit r (\<lambda>r2. star_cls is_digit r2 (\<lambda>r3. lit CHR '':'' r3 (\<lambda>r4.
     plus_cls is_nonword r4 (\<lambda>r5. star_cls is_dot r5 (\<lambda>r6.
       Some (consumed line r3, consumed r5 r6))))))
   = (case dropWhile is_digit r of
        [] \<Rightarrow> None
      | c # r' \<Rightarrow>
          if takeWhile is_digit r \<noteq> [] \<and> c = CHR '':'' \<and> takeWhile is_nonword r' \<noteq> []
          then Some (sign @ takeWhile is_digit r, takeWhile is_dot (dropWhile is_nonword r'))
          else None)"
proof -
  have grp: "consumed line (dropWhile is_digit r) = sign @ takeWhile is_digit r"
  proof -
    have "consumed ((sign @ takeWhile is_digit r) @ dropWhile is_digit r) (dropWhile is_digit r)
            = sign @ takeWhile is_digit r"
      by (rule consumed_append)
    then show ?thesis by (simp add: line)
  qed
  have "cls is_digit r (\<lambda>r2. star_cls is_digit r2 (\<lambda>r3. lit CHR '':'' r3 (\<lambda>r4.
     plus_cls is_nonword r4 (\<lambda>r5. star_cls is_dot r5 (\<lambda>r6.
       Some (consumed line r3, consumed r5 r6))))))
     = cls is_digit r (\<lambda>r2. star_cls is_digit r2 (\<lambda>r3.
        case r3 of [] \<Rightarrow> None
        | c # r' \<Rightarrow> if c = CHR '':'' \<and> takeWhile is_nonword r' \<noteq> []
            then Some (consumed line r3, takeWhile is_dot (dropWhile is_nonword r'))
            else None))"
    by (simp only: tail_match)
  also have "\<dots> = (if takeWhile is_digit r \<noteq> [] then
           (case dropWhile is_digit r of [] \<Rightarrow> None
            | c # r' \<Rightarrow> if c = CHR '':'' \<and> takeWhile is_nonword r' \<noteq> []
                then Some (consumed line (dropWhile is_digit r),
                           takeWhile is_dot (dropWhile is_nonword r'))
                else None)
         else None)"
    by (rule digits_match) (auto simp: not_digit_colon)
  also have "\<dots> = (case dropWhile is_digit r of
        [] \<Rightarrow> None
      | c # r' \<Rightarrow>
          if takeWhile is_digit r \<noteq> [] \<and> c = CHR '':'' \<and> takeWhile is_nonword r' \<noteq> []
          then Some (sign @ takeWhile is_digit r, takeWhile is_dot (dropWhile is_nonword r'))
          else None)"
    unfolding grp by (cases "dropWhile is_digit r") (simp_all del: dropWhile_eq_Nil_conv)
  finally show ?thesis .
qed

lemma regexp_match_log_entry: "regexp_match line = log_entry line"
proof (cases line)
  case Nil
  then show ?thesis
    by (simp add: regexp_match_def log_entry_def opt_lit_def lit_def cls_def)
next
  case (Cons x xs)
  show ?thesis
  proof (cases "x = CHR ''-''")
    case True
    have fail: "cls is_digit line K = None" for K :: "string \<Rightarrow> (string \<times> string) option"
      using Cons True by (simp add: cls_def not_digit_colon)
    have "regexp_match line =
        cls is_digit xs (\<lambda>r2. star_cls is_digit r2 (\<lambda>r3. lit CHR '':'' r3 (\<lambda>r4.
          plus_cls is_nonword r4 (\<lambda>r5. star_cls is_dot r5 (\<lambda>r6.
            Some (consumed line r3, consumed r5 r6))))))"
      unfolding regexp_match_def opt_lit_def
      using Cons True fail by (simp add: lit_def split: option.splits)
    also have "\<dots> = (case dropWhile is_digit xs of
        [] \<Rightarrow> None
      | c # r' \<Rightarrow>
          if takeWhile is_digit xs \<noteq> [] \<and> c = CHR '':'' \<and> takeWhile is_nonword r' \<noteq> []
          then Some (''-'' @ takeWhile is_digit xs, takeWhile is_dot (dropWhile is_nonword r'))
          else None)"
      by (rule after_sign) (simp add: Cons True)
    also have "\<dots> = log_entry line"
      using Cons True
      by (cases "dropWhile is_digit xs") (simp_all add: log_entry_def Let_def del: dropWhile_eq_Nil_conv)
    finally show ?thesis .
  next
    case False
    have "regexp_match line =
        cls is_digit line (\<lambda>r2. star_cls is_digit r2 (\<lambda>r3. lit CHR '':'' r3 (\<lambda>r4.
          plus_cls is_nonword r4 (\<lambda>r5. star_cls is_dot r5 (\<lambda>r6.
            Some (consumed line r3, consumed r5 r6))))))"
      unfolding regexp_match_def opt_lit_def
      using Cons False by (simp add: lit_def)
    also have "\<dots> = (case dropWhile is_digit line of
        [] \<Rightarrow> None
      | c # r' \<Rightarrow>
          if takeWhile is_digit line \<noteq> [] \<and> c = CHR '':'' \<and> takeWhile is_nonword r' \<noteq> []
          then Some ([] @ takeWhile is_digit line, takeWhile is_dot (dropWhile is_nonword r'))
          else None)"
      by (rule after_sign) simp
    also have "\<dots> = log_entry line"
      using Cons False
      by (cases "dropWhile is_digit line") (simp_all add: log_entry_def Let_def del: dropWhile_eq_Nil_conv)
    finally show ?thesis .
  qed
qed

lemma char_code_zero: "(char_code d = 48) = (d = CHR ''0'')"
proof
  assume "char_code d = 48"
  then have "(of_char d :: nat) = of_char CHR ''0''" by (simp add: char_code_def)
  then show "d = CHR ''0''" by (simp only: of_char_eq_iff)
qed (simp add: char_code_def)

lemma digits_value_pos:
  "list_all is_digit ds \<Longrightarrow>
     (0 < digits_value acc ds) = (0 < acc \<or> list_ex (\<lambda>d. d \<noteq> CHR ''0'') ds)"
proof (induction ds arbitrary: acc)
  case Nil
  then show ?case by simp
next
  case (Cons d ds)
  have d: "(char_code d - 48 = 0) = (d = CHR ''0'')"
    using Cons.prems char_code_zero [of d] by (auto simp: is_digit_def)
  have "(0 < digits_value acc (d # ds))
          = (0 < 10 * acc + (char_code d - 48) \<or> list_ex (\<lambda>d. d \<noteq> CHR ''0'') ds)"
    using Cons.IH [of "10 * acc + (char_code d - 48)"] Cons.prems by simp
  also have "\<dots> = (0 < acc \<or> d \<noteq> CHR ''0'' \<or> list_ex (\<lambda>d. d \<noteq> CHR ''0'') ds)"
    using d by arith
  finally show ?case by simp
qed

lemma py_int_digits:
  assumes "ds \<noteq> []" "list_all is_digit ds"
  shows "py_int ds = Some (int (digits_value 0 ds))"
    and "py_int (''-'' @ ds) = Some (- int (digits_value 0 ds))"
  using assms by (cases ds; auto simp: py_int_def not_digit_colon)+

lemma log_entry_code:
  assumes "log_entry line = Some (c, t)"
  shows "\<exists>n. py_int c = Some n \<and> (n < 0) = negative_code c"
proof -
  define sign where "sign = (if prefix ''-'' line then ''-'' else [])"
  define ds where "ds = takeWhile is_digit (drop (length sign) line)"
  have c: "c = sign @ ds" and ds: "ds \<noteq> []"
    using assms
    by (auto simp: log_entry_def Let_def sign_def ds_def split: list.splits if_splits)
  have all: "list_all is_digit ds"
    unfolding ds_def list_all_iff by (auto dest: set_takeWhileD)
  show ?thesis
  proof (cases "prefix ''-'' line")
    case True
    then have "c = ''-'' @ ds" by (simp add: c sign_def)
    then show ?thesis
      using py_int_digits(2) [OF ds all] digits_value_pos [OF all, of 0]
      by (simp add: negative_code_def)
  next
    case False
    then have "c = ds" by (simp add: c sign_def)
    moreover have "\<not> prefix ''-'' ds"
      using ds all by (cases ds) (auto simp: not_digit_colon)
    ultimately show ?thesis
      using py_int_digits(1) [OF ds all]
      by (simp add: negative_code_def)
  qed
qed

lemma parse_lines_map_filter:
  "parse_lines acc ls = acc @ List.map_filter failed_entry ls"
proof (induction ls arbitrary: acc)
  case Nil
  then show ?case by (simp add: List.map_filter_simps)
next
  case (Cons l ls)
  show ?case
  proof (cases "log_entry l")
    case None
    then show ?thesis
      by (simp add: Cons.IH regexp_match_log_entry failed_entry_def List.map_filter_simps)
  next
    case (Some e)
    obtain c t where e: "e = (c, t)" by (cases e)
    obtain n where "py_int c = Some n" "(n < 0) = negative_code c"
      using log_entry_code Some e by blast
    then show ?thesis
      using Some e
      by (simp add: Cons.IH regexp_match_log_entry failed_entry_def List.map_filter_simps)
  qed
qed

lemma parse_general: "priv_parse_batch_lastlog ls = List.map_filter failed_entry ls"
  by (simp add: priv_parse_batch_lastlog_def parse_lines_map_filter)

lemma parsed_codes:
  assumes "wc \<in> set (priv_parse_batch_lastlog ls)"
  shows "\<exists>n. py_int (fst wc) = Some n"
proof -
  obtain l where "failed_entry l = Some wc"
    using assms by (auto simp: parse_general List.map_filter_def)
  then have "log_entry l = Some (fst wc, snd wc)"
    by (auto simp: failed_entry_def split: option.splits if_splits)
  then show ?thesis
    using log_entry_code by blast
qed

section \<open>C3: what \<open>_parse_batch_lastlog\<close> returns\<close>




section \<open>Lemmas: what the commit machinery leaves alone\<close>

lemma store_config_frame:
  "vdom (store_config X p ic ec t s) = vdom s"
  "original_config (store_config X p ic ec t s) = original_config s"
  "ssh (store_config X p ic ec t s) = ssh s"
  "sent (store_config X p ic ec t s) = sent s"
  "candidate_config (store_config X p False True t s) = candidate_config s"
  by (simp_all add: store_config_def Let_def)

lemma execute_command_frame:
  "vdom (snd (execute_command X c s)) = vdom s"
  "original_config (snd (execute_command X c s)) = original_config s"
  "candidate_config (snd (execute_command X c s)) = candidate_config s"
  "running_config (snd (execute_command X c s)) = running_config s"
  by (simp_all add: execute_command_def split: option.splits prod.splits sum.splits)

lemma load_config_frame:
  "vdom (snd (load_config X p False True None s)) = vdom s"
  "original_config (snd (load_config X p False True None s)) = original_config s"
  "candidate_config (snd (load_config X p False True None s)) = candidate_config s"
proof -
  obtain r s1 where e: "execute_command X (load_command (vdom s) p) s = (r, s1)"
    by (cases "execute_command X (load_command (vdom s) p) s")
  have "vdom s1 = vdom s" "original_config s1 = original_config s"
       "candidate_config s1 = candidate_config s"
    using execute_command_frame [of X "load_command (vdom s) p" s] e by simp_all
  then show "vdom (snd (load_config X p False True None s)) = vdom s"
    "original_config (snd (load_config X p False True None s)) = original_config s"
    "candidate_config (snd (load_config X p False True None s)) = candidate_config s"
    by (simp_all add: load_config_def e store_config_frame split: sum.splits)
qed

lemma load_paths_frame:
  "vdom (snd (load_paths X ps s)) = vdom s \<and>
   original_config (snd (load_paths X ps s)) = original_config s \<and>
   candidate_config (snd (load_paths X ps s)) = candidate_config s"
proof (induction ps arbitrary: s)
  case Nil
  then show ?case by simp
next
  case (Cons p ps)
  obtain r s1 where l: "load_config X p False True None s = (r, s1)"
    by (cases "load_config X p False True None s")
  have "vdom s1 = vdom s" "original_config s1 = original_config s"
       "candidate_config s1 = candidate_config s"
    using load_config_frame [of X p s] l by simp_all
  then show ?case
    using Cons.IH [of s1] by (simp add: l split: sum.splits)
qed

lemma priv_reload_config_frame:
  "vdom (snd (priv_reload_config X r s)) = vdom s \<and>
   candidate_config (snd (priv_reload_config X r s)) = candidate_config s"
  by (simp add: priv_reload_config_def Let_def load_paths_frame)

lemma priv_reload_config_original:
  "original_config (snd (priv_reload_config X False s)) = original_config s"
  by (simp add: priv_reload_config_def Let_def load_paths_frame)

lemma priv_execute_frame:
  "vdom (snd (priv_execute X ct s)) = vdom s \<and>
   original_config (snd (priv_execute X ct s)) = original_config s \<and>
   candidate_config (snd (priv_execute X ct s)) = candidate_config s"
proof -
  let ?c = "batch_script (vdom s) (case ct of None \<Rightarrow> compare_config X None s | Some t \<Rightarrow> t)"
  obtain r s1 where e1: "execute_command X ?c s = (r, s1)"
    by (cases "execute_command X ?c s")
  obtain r2 s2 where e2: "execute_command X (lastlog_command (vdom s)) s1 = (r2, s2)"
    by (cases "execute_command X (lastlog_command (vdom s)) s1")
  have "vdom s1 = vdom s" "original_config s1 = original_config s"
       "candidate_config s1 = candidate_config s"
    using execute_command_frame [of X ?c s] e1 by simp_all
  moreover have "vdom s2 = vdom s1" "original_config s2 = original_config s1"
       "candidate_config s2 = candidate_config s1"
    using execute_command_frame [of X "lastlog_command (vdom s)" s1] e2 by simp_all
  ultimately show ?thesis
    by (simp add: priv_execute_def Let_def e1 e2 split: sum.splits)
qed

lemma retry_scan_frame:
  "vdom (snd (retry_scan X ws w ct s)) = vdom s \<and>
   original_config (snd (retry_scan X ws w ct s)) = original_config s \<and>
   candidate_config (snd (retry_scan X ws w ct s)) = candidate_config s"
proof (induction ws)
  case Nil
  then show ?case by simp
next
  case (Cons wc ws)
  let ?ct = "case ct of None \<Rightarrow> Some (compare_config X None s) | Some t \<Rightarrow> Some t"
  obtain r s1 where e: "priv_execute X ?ct s = (r, s1)"
    by (cases "priv_execute X ?ct s")
  obtain r2 s2 where l: "priv_reload_config X False s1 = (r2, s2)"
    by (cases "priv_reload_config X False s1")
  have "vdom s1 = vdom s \<and> original_config s1 = original_config s \<and>
        candidate_config s1 = candidate_config s"
    using priv_execute_frame [of X ?ct s] e by simp
  moreover have "vdom s2 = vdom s1 \<and> original_config s2 = original_config s1 \<and>
        candidate_config s2 = candidate_config s1"
    using priv_reload_config_frame [of X False s1] priv_reload_config_original [of X s1] l
    by simp
  ultimately show ?case
    using Cons.IH by (simp add: Let_def e l split: option.splits sum.splits)
qed

lemma retry_loop_frame:
  "vdom (snd (retry_loop X n w ct s)) = vdom s \<and>
   original_config (snd (retry_loop X n w ct s)) = original_config s \<and>
   candidate_config (snd (retry_loop X n w ct s)) = candidate_config s"
proof (induction X n w ct s rule: retry_loop.induct)
  case (1 X retries w ct s)
  show ?case
  proof (cases "retries > 0")
    case False
    then show ?thesis by (simp add: retry_loop.simps)
  next
    case True
    obtain r s1 where sc: "retry_scan X w w ct s = (r, s1)"
      by (cases "retry_scan X w w ct s")
    have f: "vdom s1 = vdom s \<and> original_config s1 = original_config s \<and>
        candidate_config s1 = candidate_config s"
      using retry_scan_frame [of X w w ct s] sc by simp
    show ?thesis
    proof (cases r)
      case (Inl e)
      then show ?thesis using True sc f by (simp add: retry_loop.simps [of X retries])
    next
      case (Inr p)
      obtain w' ct' where p: "p = (w', ct')" by (cases p)
      show ?thesis
        using "1.IH" [OF True sc [symmetric] Inr p [symmetric]] True sc f Inr p
        by (simp add: retry_loop.simps [of X retries])
    qed
  qed
qed

lemma commit_attempts_frame:
  "vdom (snd (commit_attempts X ct r s)) = vdom s \<and>
   candidate_config (snd (commit_attempts X ct r s)) = candidate_config s"
proof -
  obtain a s1 where e: "priv_execute X ct s = (a, s1)"
    by (cases "priv_execute X ct s")
  obtain b s2 where l: "priv_reload_config X r s1 = (b, s2)"
    by (cases "priv_reload_config X r s1")
  have "vdom s1 = vdom s \<and> candidate_config s1 = candidate_config s"
    using priv_execute_frame [of X ct s] e by simp
  moreover have "vdom s2 = vdom s1 \<and> candidate_config s2 = candidate_config s1"
    using priv_reload_config_frame [of X r s1] l by simp
  ultimately show ?thesis
    by (simp add: commit_attempts_def e l retry_loop_frame split: sum.splits)
qed

lemma commit_attempts_original:
  "original_config (snd (commit_attempts X ct False s)) = original_config s"
proof -
  obtain a s1 where e: "priv_execute X ct s = (a, s1)"
    by (cases "priv_execute X ct s")
  obtain b s2 where l: "priv_reload_config X False s1 = (b, s2)"
    by (cases "priv_reload_config X False s1")
  have "original_config s1 = original_config s"
    using priv_execute_frame [of X ct s] e by simp
  moreover have "original_config s2 = original_config s1"
    using priv_reload_config_original [of X s1] l by simp
  ultimately show ?thesis
    by (simp add: commit_attempts_def e l retry_loop_frame split: sum.splits)
qed

lemma raise_failed_state: "snd (raise_failed c w s) = s"
  by (simp add: raise_failed_def split: option.splits)

lemma priv_commit_forced_state:
  "snd (priv_commit X ct True r s) = snd (commit_attempts X ct r s)"
  by (simp add: priv_commit.simps raise_failed_state split: prod.splits sum.splits)

lemma rollback_frame:
  "vdom (snd (rollback X s)) = vdom s \<and>
   candidate_config (snd (rollback X s)) = candidate_config s \<and>
   original_config (snd (rollback X s)) = original_config s"
  by (simp add: rollback.simps Let_def priv_commit_forced_state commit_attempts_frame
        commit_attempts_original)

lemma priv_commit_state:
  "snd (priv_commit X ct force r s) = snd (commit_attempts X ct r s)
   \<or> snd (priv_commit X ct force r s) = snd (rollback X (snd (commit_attempts X ct r s)))"
proof -
  obtain a s1 where e: "commit_attempts X ct r s = (a, s1)"
    by (cases "commit_attempts X ct r s")
  obtain b s2 where l: "rollback X s1 = (b, s2)"
    by (cases "rollback X s1")
  show ?thesis
    by (simp add: priv_commit.simps [of X ct force] e l raise_failed_state split: sum.splits)
qed

lemma priv_commit_frame:
  "vdom (snd (priv_commit X ct force r s)) = vdom s \<and>
   candidate_config (snd (priv_commit X ct force r s)) = candidate_config s"
  using priv_commit_state [of X ct force r s] commit_attempts_frame [of X ct r s]
    rollback_frame [of X "snd (commit_attempts X ct r s)"]
  by auto

lemma priv_commit_original:
  "original_config (snd (priv_commit X ct force False s)) = original_config s"
  using priv_commit_state [of X ct force False s] commit_attempts_original [of X ct s]
    rollback_frame [of X "snd (commit_attempts X ct False s)"]
  by auto

section \<open>C7, C4 and C10\<close>

text \<open>
  C7: the commit and rollback machinery never changes the candidate config. After
  \<open>commit\<close>, after \<open>_commit\<close> with any arguments (its retries, its reloads of the running
  config and its rollback included), after \<open>rollback\<close> and after \<open>_reload_config\<close>, the
  candidate config is the object it was before, whether the call returns or raises. A
  load changes it: \<open>load_config\<close> with \<open>in_candidate\<close> set, or with \<open>empty_candidate\<close>
  not set, parses the text into the candidate config and records the path.
\<close>

theorem C7_candidate_unchanged:
  "candidate_config (snd (commit X config_text force s)) = candidate_config s
   \<and> candidate_config (snd (priv_commit X config_text force reload_original_config s))
       = candidate_config s
   \<and> candidate_config (snd (rollback X s)) = candidate_config s
   \<and> candidate_config (snd (priv_reload_config X reload_original_config s)) = candidate_config s
   \<and> candidate_config (snd (load_config X path True empty_candidate (Some t) s))
       = add_path X (parse_config_output X (candidate_config s) t) path
   \<and> candidate_config (snd (load_config X path in_candidate False (Some t) s))
       = add_path X (parse_config_output X (candidate_config s) t) path"
  by (simp add: commit_def priv_commit_frame rollback_frame priv_reload_config_frame
        load_config_def store_config_def Let_def)

text \<open>
  C4: with a snapshot in \<open>original_config\<close>, \<open>rollback\<close> computes the commands that lead
  from the running config to the snapshot. When there are none it returns with the device
  object as it was, so nothing was sent to the device; otherwise it is \<open>_commit\<close> of these
  commands with \<open>force=True\<close> and \<open>reload_original_config=False\<close>. Such a commit, and so
  the rollback, leaves the snapshot in \<open>original_config\<close> as it was.
\<close>

theorem C4_rollback:
  assumes "original_config s = Some snapshot"
  shows "rollback X s =
           (if fc_compare_config X (running_config s) snapshot = [] then (Inr (), s)
            else priv_commit X (Some (fc_compare_config X (running_config s) snapshot))
                   True False s)
         \<and> original_config (snd (rollback X s)) = Some snapshot
         \<and> original_config (snd (priv_commit X (Some t) True False s)) = Some snapshot"
  using assms
  by (simp add: rollback.simps [of X s] Let_def compare_config_def rollback_frame
        priv_commit_original)

theorem C4_rollback_witness:
  "rollback demo_externals
     ((demo_device ['''', ''0: set a 1'', ''set a 1''] None [''set a 2''] [''set a 2''])
        \<lparr>original_config := Some (''original'', [''system''], [''set a 1''])\<rparr>)
   = priv_commit demo_externals (Some ''set a 1'') True False
      ((demo_device ['''', ''0: set a 1'', ''set a 1''] None [''set a 2''] [''set a 2''])
        \<lparr>original_config := Some (''original'', [''system''], [''set a 1''])\<rparr>)
   \<and> rollback demo_externals
     ((demo_device [] None [''set a 1''] [''set a 2''])
        \<lparr>original_config := Some (''original'', [''system''], [''set a 1''])\<rparr>)
   = (Inr (), (demo_device [] None [''set a 1''] [''set a 2''])
        \<lparr>original_config := Some (''original'', [''system''], [''set a 1''])\<rparr>)"
proof -
  let ?o = "(''original'', [''system''], [''set a 1''])"
  let ?s = "(demo_device ['''', ''0: set a 1'', ''set a 1''] None [''set a 2''] [''set a 2''])
        \<lparr>original_config := Some ?o\<rparr>"
  let ?t = "(demo_device [] None [''set a 1''] [''set a 2''])\<lparr>original_config := Some ?o\<rparr>"
  have d: "fc_compare_config demo_externals (running_config ?s) ?o = ''set a 1''"
    "fc_compare_config demo_externals (running_config ?t) ?o = []"
    by (simp_all add: demo_externals_def demo_device_def demo_diff_def)
  have "original_config ?s = Some ?o" "original_config ?t = Some ?o" by simp_all
  from C4_rollback [OF this(1), of demo_externals] C4_rollback [OF this(2), of demo_externals]
  show ?thesis
    by (simp only: d) simp
qed

text \<open>
  C10: whatever the arguments, \<open>FortiOS.__init__\<close> raises NameError for \<open>host\<close>: the name
  is not a parameter (the parameter is \<open>hostname\<close>), not a name of the module and not a
  built-in, so the first assignment fails and no object is made.
\<close>

theorem C10_init_fails:
  "FortiOS_init X hostname usernm passwd vd devtype tmo = Inl (NameError ''host'')"
  by (simp add: FortiOS_init_def resolve_def init_locals_def module_names_def
        builtin_names_def)

section \<open>Lemmas: counting the batch scripts that were sent\<close>

lemma batch_script_is_batch: "is_batch_script (batch_script vd t)"
  by (cases vd) (simp_all add: is_batch_script_def batch_script_def batch_prefix_def)

lemma lastlog_not_batch: "\<not> is_batch_script (lastlog_command vd)"
  by (cases vd) (simp_all add: is_batch_script_def lastlog_command_def batch_prefix_def)

lemma load_not_batch: "\<not> is_batch_script (load_command vd p)"
  by (cases vd) (simp_all add: is_batch_script_def load_command_def)

lemma lastlog_is_lastlog: "is_lastlog_command (lastlog_command vd)"
  by (cases vd) (simp_all add: is_lastlog_command_def lastlog_command_def batch_prefix_def)

lemma execute_command_sent:
  "sent (snd (execute_command X c s)) = sent s \<or> sent (snd (execute_command X c s)) = sent s @ [c]"
  by (simp add: execute_command_def split: option.splits prod.splits sum.splits)

lemma load_config_batches:
  "batches_sent (snd (load_config X p False True None s)) = batches_sent s"
proof -
  obtain r s1 where e: "execute_command X (load_command (vdom s) p) s = (r, s1)"
    by (cases "execute_command X (load_command (vdom s) p) s")
  have "sent s1 = sent s \<or> sent s1 = sent s @ [load_command (vdom s) p]"
    using execute_command_sent [of X "load_command (vdom s) p" s] e by simp
  then have "batches_sent s1 = batches_sent s"
    by (auto simp: batches_sent_def load_not_batch)
  then show ?thesis
    by (simp add: load_config_def e batches_sent_def store_config_frame split: sum.splits)
qed

lemma load_paths_batches: "batches_sent (snd (load_paths X ps s)) = batches_sent s"
proof (induction ps arbitrary: s)
  case Nil
  then show ?case by simp
next
  case (Cons p ps)
  obtain r s1 where l: "load_config X p False True None s = (r, s1)"
    by (cases "load_config X p False True None s")
  have "batches_sent s1 = batches_sent s"
    using load_config_batches [of X p s] l by simp
  then show ?case
    using Cons.IH [of s1] by (simp add: l split: sum.splits)
qed

lemma priv_reload_config_batches:
  "batches_sent (snd (priv_reload_config X r s)) = batches_sent s"
proof -
  have "batches_sent (snd (load_paths X ps s')) = batches_sent s" if "sent s' = sent s" for ps s'
    using load_paths_batches [of X ps s'] that by (simp add: batches_sent_def)
  then show ?thesis
    by (simp add: priv_reload_config_def Let_def)
qed

lemma priv_execute_batches_le:
  "batches_sent (snd (priv_execute X ct s)) \<le> batches_sent s + 1"
proof -
  let ?c = "batch_script (vdom s) (case ct of None \<Rightarrow> compare_config X None s | Some t \<Rightarrow> t)"
  obtain r1 sa where e1: "execute_command X ?c s = (r1, sa)"
    by (cases "execute_command X ?c s")
  obtain r2 sb where e2: "execute_command X (lastlog_command (vdom sa)) sa = (r2, sb)"
    by (cases "execute_command X (lastlog_command (vdom sa)) sa")
  have a: "batches_sent sa \<le> batches_sent s + 1"
    using execute_command_sent [of X ?c s] e1 by (auto simp: batches_sent_def)
  have b: "batches_sent sb = batches_sent sa"
    using execute_command_sent [of X "lastlog_command (vdom sa)" sa] e2
    by (auto simp: batches_sent_def lastlog_not_batch)
  show ?thesis
    using a b by (simp add: priv_execute_def Let_def e1 e2 split: sum.splits)
qed

lemma retry_scan_batches_le:
  "batches_sent (snd (retry_scan X ws w ct s)) \<le> batches_sent s + 1"
proof (induction ws)
  case Nil
  then show ?case by simp
next
  case (Cons wc ws)
  let ?ct = "case ct of None \<Rightarrow> Some (compare_config X None s) | Some t \<Rightarrow> Some t"
  obtain r s1 where e: "priv_execute X ?ct s = (r, s1)"
    by (cases "priv_execute X ?ct s")
  obtain r2 s2 where l: "priv_reload_config X False s1 = (r2, s2)"
    by (cases "priv_reload_config X False s1")
  have "batches_sent s1 \<le> batches_sent s + 1"
    using priv_execute_batches_le [of X ?ct s] e by simp
  moreover have "batches_sent s2 = batches_sent s1"
    using priv_reload_config_batches [of X False s1] l by simp
  ultimately show ?case
    using Cons.IH by (simp add: Let_def e l split: option.splits sum.splits)
qed

lemma retry_loop_batches_le:
  "batches_sent (snd (retry_loop X n w ct s)) \<le> batches_sent s + nat n"
proof (induction X n w ct s rule: retry_loop.induct)
  case (1 X retries w ct s)
  show ?case
  proof (cases "retries > 0")
    case False
    then show ?thesis by (simp add: retry_loop.simps)
  next
    case True
    obtain r s1 where sc: "retry_scan X w w ct s = (r, s1)"
      by (cases "retry_scan X w w ct s")
    have f: "batches_sent s1 \<le> batches_sent s + 1"
      using retry_scan_batches_le [of X w w ct s] sc by simp
    show ?thesis
    proof (cases r)
      case (Inl e)
      then show ?thesis using True sc f by (simp add: retry_loop.simps [of X retries])
    next
      case (Inr p)
      obtain w' ct' where p: "p = (w', ct')" by (cases p)
      have "batches_sent (snd (retry_loop X (retries - 1) w' ct' s1))
              \<le> batches_sent s1 + nat (retries - 1)"
        using "1.IH" [OF True sc [symmetric] Inr p [symmetric]] .
      moreover have "nat retries = nat (retries - 1) + 1"
        using True by simp
      ultimately show ?thesis
        using True sc f Inr p by (simp add: retry_loop.simps [of X retries])
    qed
  qed
qed

lemma commit_attempts_at_most_six_batches:
  "batches_sent (snd (commit_attempts X ct r s)) \<le> batches_sent s + 6"
proof -
  obtain a s1 where e: "priv_execute X ct s = (a, s1)"
    by (cases "priv_execute X ct s")
  obtain b s2 where l: "priv_reload_config X r s1 = (b, s2)"
    by (cases "priv_reload_config X r s1")
  have 1: "batches_sent s1 \<le> batches_sent s + 1"
    using priv_execute_batches_le [of X ct s] e by simp
  have 2: "batches_sent s2 = batches_sent s1"
    using priv_reload_config_batches [of X r s1] l by simp
  have 3: "batches_sent (snd (retry_loop X 5 w ct s2)) \<le> batches_sent s2 + 5" for w
    using retry_loop_batches_le [of X 5 w ct s2] by simp
  show ?thesis
  proof (cases a)
    case (Inl x)
    then show ?thesis using 1 by (simp add: commit_attempts_def e)
  next
    case (Inr w)
    then show ?thesis
      using 1 2 3 [of w] by (cases b) (simp_all add: commit_attempts_def e l)
  qed
qed

lemma exec_ok:
  assumes "fails_with_minus3 X I" "session_in I s"
  shows "\<exists>out s'. execute_command X c s = (Inr out, s') \<and> session_in I s'
           \<and> sent s' = sent s @ [c]
           \<and> (is_lastlog_command c \<longrightarrow>
                (\<exists>cd t. priv_parse_batch_lastlog out = [(cd, t)] \<and> py_int cd = Some (- 3)))"
proof -
  obtain d where d: "ssh s = Some d" "I d"
    using assms(2) by (auto simp: session_in_def split: option.splits)
  obtain out d' where o: "send_command X d c = (Inr out, d')" "I d'"
      "\<not> py_in ''Command fail'' out"
      "is_lastlog_command c \<longrightarrow>
         (\<exists>cd t. priv_parse_batch_lastlog (splitlines out) = [(cd, t)] \<and> py_int cd = Some (- 3))"
    using assms(1) d(2) unfolding fails_with_minus3_def by blast
  show ?thesis
    using d o by (simp add: execute_command_def session_in_def)
qed

lemma load_paths_ok:
  assumes "fails_with_minus3 X I"
  shows "session_in I s \<Longrightarrow> \<exists>s'. load_paths X ps s = (Inr (), s') \<and> session_in I s'"
proof (induction ps arbitrary: s)
  case Nil
  then show ?case by simp
next
  case (Cons p ps)
  obtain out s1 where e: "execute_command X (load_command (vdom s) p) s = (Inr out, s1)"
      "session_in I s1"
    using exec_ok [OF assms Cons.prems] by blast
  have "session_in I (store_config X p False True (Lines out) s1)"
    using e(2) by (simp add: session_in_def store_config_frame)
  from Cons.IH [OF this] show ?case
    by (simp add: load_config_def e)
qed

lemma reload_ok:
  assumes "fails_with_minus3 X I" "session_in I s"
  shows "\<exists>s'. priv_reload_config X r s = (Inr (), s') \<and> session_in I s'"
proof -
  have "\<exists>s'. load_paths X ps s0 = (Inr (), s') \<and> session_in I s'" if "ssh s0 = ssh s" for ps s0
    using load_paths_ok [OF assms(1), of s0 ps] assms(2) that by (simp add: session_in_def)
  then show ?thesis
    by (simp add: priv_reload_config_def Let_def)
qed

lemma execute_ok:
  assumes "fails_with_minus3 X I" "session_in I s"
  shows "\<exists>cd t s'. priv_execute X ct s = (Inr [(cd, t)], s') \<and> py_int cd = Some (- 3)
           \<and> session_in I s' \<and> batches_sent s' = batches_sent s + 1"
proof -
  let ?c = "batch_script (vdom s) (case ct of None \<Rightarrow> compare_config X None s | Some t \<Rightarrow> t)"
  obtain out s1 where e1: "execute_command X ?c s = (Inr out, s1)" "session_in I s1"
      "sent s1 = sent s @ [?c]"
    using exec_ok [OF assms, of ?c] by blast
  have v: "vdom s1 = vdom s"
    using execute_command_frame(1) [of X ?c s] e1(1) by simp
  obtain out2 s2 cd t where e2: "execute_command X (lastlog_command (vdom s)) s1 = (Inr out2, s2)"
      "session_in I s2" "sent s2 = sent s1 @ [lastlog_command (vdom s)]"
      "priv_parse_batch_lastlog out2 = [(cd, t)]" "py_int cd = Some (- 3)"
    using exec_ok [OF assms(1) e1(2), of "lastlog_command (vdom s)"] lastlog_is_lastlog
    by blast
  have "batches_sent s2 = batches_sent s + 1"
    by (simp add: batches_sent_def e1(3) e2(3) batch_script_is_batch lastlog_not_batch)
  then show ?thesis
    using e1 e2 v by (simp add: priv_execute_def Let_def)
qed

lemma scan_ok:
  assumes "fails_with_minus3 X I" "session_in I s" "py_int cd = Some (- 3)"
  shows "\<exists>cd' t' ct' s'. retry_scan X ((cd, t) # rest) w ct s = (Inr ([(cd', t')], ct'), s')
           \<and> py_int cd' = Some (- 3) \<and> session_in I s'
           \<and> batches_sent s' = batches_sent s + 1"
proof -
  let ?ct = "case ct of None \<Rightarrow> Some (compare_config X None s) | Some t \<Rightarrow> Some t"
  obtain cd' t' s1 where e: "priv_execute X ?ct s = (Inr [(cd', t')], s1)"
      "py_int cd' = Some (- 3)" "session_in I s1" "batches_sent s1 = batches_sent s + 1"
    using execute_ok [OF assms(1,2), of ?ct] by blast
  obtain s2 where l: "priv_reload_config X False s1 = (Inr (), s2)" "session_in I s2"
    using reload_ok [OF assms(1) e(3), of False] by blast
  have "batches_sent s2 = batches_sent s1"
    using priv_reload_config_batches [of X False s1] l(1) by simp
  then show ?thesis
    using assms(3) e l by (simp add: retry_codes_def Let_def)
qed

lemma loop_ok:
  assumes "fails_with_minus3 X I"
  shows "session_in I s \<Longrightarrow> py_int cd = Some (- 3) \<Longrightarrow>
         \<exists>cd' t' s'. retry_loop X (int n) [(cd, t)] ct s = (Inr [(cd', t')], s')
           \<and> py_int cd' = Some (- 3) \<and> session_in I s'
           \<and> batches_sent s' = batches_sent s + n"
proof (induction n arbitrary: s cd t ct)
  case 0
  then show ?case by (simp add: retry_loop.simps)
next
  case (Suc n)
  obtain cd1 t1 ct1 s1 where sc:
      "retry_scan X [(cd, t)] [(cd, t)] ct s = (Inr ([(cd1, t1)], ct1), s1)"
      "py_int cd1 = Some (- 3)" "session_in I s1" "batches_sent s1 = batches_sent s + 1"
    using scan_ok [OF assms Suc.prems] by blast
  obtain cd' t' s' where lp: "retry_loop X (int n) [(cd1, t1)] ct1 s1 = (Inr [(cd', t')], s')"
      "py_int cd' = Some (- 3)" "session_in I s'" "batches_sent s' = batches_sent s1 + n"
    using Suc.IH [OF sc(3) sc(2)] by blast
  have "retry_loop X (int (Suc n)) [(cd, t)] ct s = retry_loop X (int n) [(cd1, t1)] ct1 s1"
    by (subst retry_loop.simps) (simp add: sc(1) del: retry_scan.simps)
  then show ?case
    using lp sc(4) by simp
qed

lemma attempts_ok:
  assumes "fails_with_minus3 X I" "session_in I s"
  shows "\<exists>cd t s'. commit_attempts X ct r s = (Inr [(cd, t)], s') \<and> py_int cd = Some (- 3)
           \<and> batches_sent s' = batches_sent s + 6"
proof -
  obtain cd0 t0 s1 where e: "priv_execute X ct s = (Inr [(cd0, t0)], s1)"
      "py_int cd0 = Some (- 3)" "session_in I s1" "batches_sent s1 = batches_sent s + 1"
    using execute_ok [OF assms, of ct] by blast
  obtain s2 where l: "priv_reload_config X r s1 = (Inr (), s2)" "session_in I s2"
    using reload_ok [OF assms(1) e(3), of r] by blast
  have b: "batches_sent s2 = batches_sent s1"
    using priv_reload_config_batches [of X r s1] l(1) by simp
  obtain cd t s' where lp: "retry_loop X (int 5) [(cd0, t0)] ct s2 = (Inr [(cd, t)], s')"
      "py_int cd = Some (- 3)" "batches_sent s' = batches_sent s2 + 5"
    using loop_ok [OF assms(1) l(2) e(2), of 5 t0 ct] by blast
  show ?thesis
    using e l b lp by (simp add: commit_attempts_def)
qed

lemma fails_const: "fails_with_minus3 (constant_externals ''-3: set a 2'') (\<lambda>d. True)"
proof -
  have "priv_parse_batch_lastlog (splitlines ''-3: set a 2'') = [(''-3'', ''set a 2'')]"
    by code_simp
  moreover have "py_int ''-3'' = Some (- 3)" by code_simp
  moreover have "\<not> py_in ''Command fail'' ''-3: set a 2''" by code_simp
  ultimately show ?thesis
    by (simp add: fails_with_minus3_def constant_externals_def)
qed

section \<open>C1: the retry bound\<close>

text \<open>
  C1: on a device where every batch fails with exactly one entry of code \<open>-3\<close>, a commit
  sends six batch scripts, the first attempt and five retries, and no more; the list of
  failed commands it is left with is not empty, and the commit goes on to the failure
  handling, which is the rollback (when \<open>force\<close> is false) and the \<open>raise\<close>. (On any
  device at all, the attempts of one commit send six batch scripts at most: lemma
  \<open>commit_attempts_at_most_six_batches\<close>.)
\<close>

theorem C1_retry_bound:
  assumes "fails_with_minus3 X I" "ssh s = Some d" "I d"
  shows "\<exists>wrong_commands s'.
           commit_attempts X config_text reload_original_config s = (Inr wrong_commands, s')
           \<and> batches_sent s' = batches_sent s + 6
           \<and> wrong_commands \<noteq> []
           \<and> priv_commit X config_text force reload_original_config s
               = failure_handling X force wrong_commands s'"
proof -
  have "session_in I s" using assms(2,3) by (simp add: session_in_def)
  then obtain cd t s' where a:
      "commit_attempts X config_text reload_original_config s = (Inr [(cd, t)], s')"
      "batches_sent s' = batches_sent s + 6"
    using attempts_ok [OF assms(1)] by blast
  have "priv_commit X config_text force reload_original_config s
          = failure_handling X force [(cd, t)] s'"
    by (simp add: priv_commit.simps [of X config_text force] a(1) failure_handling_def)
  with a show ?thesis by simp
qed

theorem C1_retry_bound_witness:
  "batches_sent (snd (commit_attempts (constant_externals ''-3: set a 2'') None True
       (demo_device () None [''set a 1''] [''set a 2'']))) = 6
   \<and> priv_commit (constant_externals ''-3: set a 2'') None False True
       (demo_device () None [''set a 1''] [''set a 2''])
     = failure_handling (constant_externals ''-3: set a 2'') False
         (projr (fst (commit_attempts (constant_externals ''-3: set a 2'') None True
            (demo_device () None [''set a 1''] [''set a 2'']))))
         (snd (commit_attempts (constant_externals ''-3: set a 2'') None True
            (demo_device () None [''set a 1''] [''set a 2''])))"
proof -
  let ?X = "constant_externals ''-3: set a 2''"
  let ?s = "demo_device () None [''set a 1''] [''set a 2'']"
  have s: "ssh ?s = Some ()" "batches_sent ?s = 0"
    by (simp_all add: demo_device_def batches_sent_def)
  obtain w s' where "commit_attempts ?X None True ?s = (Inr w, s')"
      "batches_sent s' = batches_sent ?s + 6"
      "priv_commit ?X None False True ?s = failure_handling ?X False w s'"
    using C1_retry_bound [OF fails_const s(1), of None True False] by blast
  then show ?thesis
    using s(2) by simp
qed

lemma execute_command_Inr:
  assumes "execute_command X c s = (Inr out, s1)"
  shows "sent s1 = sent s @ [c]"
  using assms
  by (auto simp: execute_command_def split: option.splits prod.splits sum.splits if_splits)

lemma priv_execute_Inr:
  assumes "priv_execute X ct s = (Inr w, s1)"
  shows "batches_sent s1 = batches_sent s + 1 \<and> (\<forall>wc \<in> set w. \<exists>n. py_int (fst wc) = Some n)"
proof -
  let ?c = "batch_script (vdom s) (case ct of None \<Rightarrow> compare_config X None s | Some t \<Rightarrow> t)"
  obtain r1 sa where e1: "execute_command X ?c s = (r1, sa)"
    by (cases "execute_command X ?c s")
  obtain r2 sb where e2: "execute_command X (lastlog_command (vdom sa)) sa = (r2, sb)"
    by (cases "execute_command X (lastlog_command (vdom sa)) sa")
  from assms obtain o1 o2 where r: "r1 = Inr o1" "r2 = Inr o2" "s1 = sb"
      "w = priv_parse_batch_lastlog o2"
    by (auto simp: priv_execute_def Let_def e1 e2 split: sum.splits)
  have "sent sa = sent s @ [?c]"
    using execute_command_Inr [of X ?c s o1 sa] e1 r by simp
  moreover have "sent sb = sent sa @ [lastlog_command (vdom sa)]"
    using execute_command_Inr [of X "lastlog_command (vdom sa)" sa o2 sb] e2 r by simp
  ultimately have "batches_sent sb = batches_sent s + 1"
    by (simp add: batches_sent_def batch_script_is_batch lastlog_not_batch)
  then show ?thesis
    using r parsed_codes by blast
qed

lemma retry_scan_none:
  assumes "\<forall>wc \<in> set ws. \<exists>n. py_int (fst wc) = Some n \<and> n \<noteq> - 3 \<and> n \<noteq> - 23"
  shows "retry_scan X ws w ct s = (Inr (w, ct), s)"
  using assms by (induction ws) (auto simp: retry_codes_def)

lemma retry_loop_none:
  assumes "\<forall>wc \<in> set w. \<exists>n. py_int (fst wc) = Some n \<and> n \<noteq> - 3 \<and> n \<noteq> - 23"
  shows "retry_loop X (int n) w ct s = (Inr w, s)"
proof (induction n)
  case 0
  then show ?case by (simp add: retry_loop.simps)
next
  case (Suc n)
  have "retry_loop X (int (Suc n)) w ct s = retry_loop X (int n) w ct s"
    by (subst retry_loop.simps) (simp add: retry_scan_none [OF assms])
  then show ?case using Suc by simp
qed

section \<open>C5: no retry for other codes\<close>

text \<open>
  C5: when the first attempt of a commit returns failed commands and none of their codes
  is \<open>-3\<close> or \<open>-23\<close>, the retry loop, entered after the reload of the running config,
  changes nothing and sends nothing: one batch script was sent in all, and the commit goes
  on to the failure handling with the failed commands of the first attempt.
\<close>

theorem C5_no_retry:
  assumes "priv_execute X config_text s = (Inr wrong_commands, s1)"
    and "\<forall>wc \<in> set wrong_commands. py_int (fst wc) \<noteq> Some (- 3) \<and> py_int (fst wc) \<noteq> Some (- 23)"
    and "wrong_commands \<noteq> []"
    and "priv_reload_config X reload_original_config s1 = (Inr (), s2)"
  shows "retry_loop X 5 wrong_commands config_text s2 = (Inr wrong_commands, s2)
         \<and> batches_sent s2 = batches_sent s + 1
         \<and> priv_commit X config_text force reload_original_config s
             = failure_handling X force wrong_commands s2"
proof -
  have ex: "batches_sent s1 = batches_sent s + 1"
    and codes: "\<forall>wc \<in> set wrong_commands. \<exists>n. py_int (fst wc) = Some n"
    using priv_execute_Inr [OF assms(1)] by simp_all
  have nr: "\<forall>wc \<in> set wrong_commands. \<exists>n. py_int (fst wc) = Some n \<and> n \<noteq> - 3 \<and> n \<noteq> - 23"
    using codes assms(2) by fastforce
  have loop: "retry_loop X 5 wrong_commands config_text s2 = (Inr wrong_commands, s2)"
    using retry_loop_none [OF nr, of X 5 config_text s2] by simp
  have b: "batches_sent s2 = batches_sent s1"
    using priv_reload_config_batches [of X reload_original_config s1] assms(4) by simp
  have "commit_attempts X config_text reload_original_config s = (Inr wrong_commands, s2)"
    by (simp add: commit_attempts_def assms(1,4) loop)
  then have "priv_commit X config_text force reload_original_config s
          = failure_handling X force wrong_commands s2"
    using assms(3) by (simp add: priv_commit.simps [of X config_text force] failure_handling_def)
  with loop ex b show ?thesis by simp
qed

theorem C5_no_retry_witness:
  "priv_commit demo_externals None False True
     (demo_device ['''', ''-5: set a 2'', ''set a 1''] None [''set a 1''] [''set a 2''])
   = failure_handling demo_externals False [(''-5'', ''set a 2'')]
       (snd (priv_reload_config demo_externals True
          (snd (priv_execute demo_externals None
             (demo_device ['''', ''-5: set a 2'', ''set a 1''] None [''set a 1''] [''set a 2''])))))
   \<and> batches_sent (snd (priv_reload_config demo_externals True
          (snd (priv_execute demo_externals None
             (demo_device ['''', ''-5: set a 2'', ''set a 1''] None [''set a 1''] [''set a 2''])))))
     = 1"
proof -
  let ?X = "demo_externals"
  let ?s = "demo_device ['''', ''-5: set a 2'', ''set a 1''] None [''set a 1''] [''set a 2'']"
  let ?s1 = "snd (priv_execute ?X None ?s)"
  let ?s2 = "snd (priv_reload_config ?X True ?s1)"
  have "fst (priv_execute ?X None ?s) = Inr [(''-5'', ''set a 2'')]" by code_simp
  then have e: "priv_execute ?X None ?s = (Inr [(''-5'', ''set a 2'')], ?s1)"
    by (simp add: prod_eq_iff)
  have "fst (priv_reload_config ?X True ?s1) = Inr ()" by code_simp
  then have l: "priv_reload_config ?X True ?s1 = (Inr (), ?s2)"
    by (simp add: prod_eq_iff)
  have c: "\<forall>wc \<in> set [(''-5'', ''set a 2'')].
             py_int (fst wc) \<noteq> Some (- 3) \<and> py_int (fst wc) \<noteq> Some (- 23)"
    by (simp add: py_int_def is_digit_def char_code_def)
  have z: "batches_sent ?s = 0" by (simp add: demo_device_def batches_sent_def)
  from C5_no_retry [OF e c _ l, of False] z show ?thesis by simp
qed

section \<open>Lemmas: the exception a failed commit ends with\<close>

lemma exceptions_unbound:
  "resolve commit_locals ''exceptions'' = None" "resolve execute_locals ''exceptions'' = None"
  by (simp_all add: resolve_def commit_locals_def execute_locals_def module_names_def
        builtin_names_def)

lemma raise_failed_NameError:
  "c < 0 \<Longrightarrow> raise_failed c w s = (Inl (NameError ''exceptions''), s)"
  by (simp add: raise_failed_def exceptions_unbound)

lemma execute_command_nf:
  "execute_command X c s = (Inl e, s') \<Longrightarrow> \<not> is_FailedCommit e"
  by (auto simp: execute_command_def exceptions_unbound
        split: option.splits prod.splits sum.splits if_splits)

lemma load_config_nf:
  "load_config X p ic ec None s = (Inl e, s') \<Longrightarrow> \<not> is_FailedCommit e"
  by (auto simp: load_config_def split: prod.splits sum.splits dest: execute_command_nf)

lemma load_paths_nf:
  "load_paths X ps s = (Inl e, s') \<Longrightarrow> \<not> is_FailedCommit e"
proof (induction ps arbitrary: s)
  case Nil
  then show ?case by simp
next
  case (Cons p ps)
  then show ?case
    by (auto split: prod.splits sum.splits dest: load_config_nf)
qed

lemma priv_reload_config_nf:
  "priv_reload_config X r s = (Inl e, s') \<Longrightarrow> \<not> is_FailedCommit e"
  by (auto simp: priv_reload_config_def Let_def dest: load_paths_nf)

lemma priv_execute_nf:
  "priv_execute X ct s = (Inl e, s') \<Longrightarrow> \<not> is_FailedCommit e"
  by (auto simp: priv_execute_def Let_def split: prod.splits sum.splits
        dest: execute_command_nf)

lemma retry_scan_nf:
  "retry_scan X ws w ct s = (Inl e, s') \<Longrightarrow> \<not> is_FailedCommit e"
proof (induction ws)
  case Nil
  then show ?case by simp
next
  case (Cons wc ws)
  then show ?case
    by (auto simp: Let_def split: option.splits prod.splits sum.splits if_splits
          dest: priv_execute_nf priv_reload_config_nf)
qed

lemma retry_loop_nf:
  "retry_loop X n w ct s = (Inl e, s') \<Longrightarrow> \<not> is_FailedCommit e"
proof (induction X n w ct s rule: retry_loop.induct)
  case (1 X retries w ct s)
  show ?case
  proof (cases "retries > 0")
    case False
    then show ?thesis using "1.prems" by (simp add: retry_loop.simps)
  next
    case True
    obtain r s1 where sc: "retry_scan X w w ct s = (r, s1)"
      by (cases "retry_scan X w w ct s")
    show ?thesis
    proof (cases r)
      case (Inl e')
      then show ?thesis
        using True sc "1.prems" retry_scan_nf [of X w w ct s e' s1]
        by (simp add: retry_loop.simps [of X retries])
    next
      case (Inr p)
      obtain w' ct' where p: "p = (w', ct')" by (cases p)
      show ?thesis
        using "1.IH" [OF True sc [symmetric] Inr p [symmetric]] True sc Inr p "1.prems"
        by (simp add: retry_loop.simps [of X retries])
    qed
  qed
qed

lemma commit_attempts_nf:
  "commit_attempts X ct r s = (Inl e, s') \<Longrightarrow> \<not> is_FailedCommit e"
  by (auto simp: commit_attempts_def split: prod.splits sum.splits
        dest: priv_execute_nf priv_reload_config_nf retry_loop_nf)

lemma priv_commit_forced_nf:
  "priv_commit X ct True r s = (Inl e, s') \<Longrightarrow> \<not> is_FailedCommit e"
  by (auto simp: priv_commit.simps raise_failed_NameError
        split: prod.splits sum.splits if_splits dest: commit_attempts_nf)

lemma rollback_nf:
  "rollback X s = (Inl e, s') \<Longrightarrow> \<not> is_FailedCommit e"
  by (auto simp: rollback.simps Let_def split: if_splits dest: priv_commit_forced_nf)

lemma priv_commit_nf:
  "priv_commit X ct force r s = (Inl e, s') \<Longrightarrow> \<not> is_FailedCommit e"
  by (auto simp: priv_commit.simps [of X ct force] raise_failed_NameError
        split: prod.splits sum.splits if_splits dest: commit_attempts_nf rollback_nf)

lemma priv_commit_never_FailedCommit: "fst (priv_commit X ct force r s) \<noteq> Inl (FailedCommit w)"
proof
  assume a: "fst (priv_commit X ct force r s) = Inl (FailedCommit w)"
  obtain s' where "priv_commit X ct force r s = (Inl (FailedCommit w), s')"
    using a by (cases "priv_commit X ct force r s") simp
  from priv_commit_nf [OF this] show False by simp
qed

lemma forced_commit_raises_NameError:
  assumes "commit_attempts X ct r s = (Inr w, s1)" "w \<noteq> []"
  shows "priv_commit X ct True r s = (Inl (NameError ''exceptions''), s1)"
  using assms by (simp add: priv_commit.simps raise_failed_NameError)

lemma unforced_commit_raises_NameError:
  assumes "commit_attempts X ct r s = (Inr w, s1)" "w \<noteq> []" "rollback X s1 = (Inr (), s2)"
  shows "priv_commit X ct False r s = (Inl (NameError ''exceptions''), s2)"
  using assms by (simp add: priv_commit.simps raise_failed_NameError)

section \<open>C2 and C6: the error of a failed commit\<close>

text \<open>
  C2 asks for a FailedCommit error that carries the failed commands, after the rollback.
  The \<open>raise\<close> of line 267 names \<open>exceptions.FailedCommit\<close>, and \<open>fortios.py\<close> imports no
  \<open>exceptions\<close>, so what it raises is NameError; no commit ends with FailedCommit (lemma
  \<open>priv_commit_never_FailedCommit\<close>). Here the batch log is \<open>-5: set a 2\<close>, the device
  then shows \<open>set a 9\<close>, and \<open>force\<close> is false: the rollback runs (its batch \<open>set a 1\<close> is
  sent and succeeds), and the commit ends with NameError for \<open>exceptions\<close>.
\<close>

theorem C2_failed_commit_raises_NameError:
  "fst (commit demo_externals None False
          (demo_device ['''', ''-5: set a 2'', ''set a 9'', '''', ''0: set a 1'', ''set a 1'']
             None [''set a 1''] [''set a 2'']))
     = Inl (NameError ''exceptions'')
   \<and> sent (snd (commit demo_externals None False
          (demo_device ['''', ''-5: set a 2'', ''set a 9'', '''', ''0: set a 1'', ''set a 1'']
             None [''set a 1''] [''set a 2''])))
     = [''execute batch start\<newline>set a 2\<newline>execute batch end\<newline>'',
        ''execute batch lastlog'', ''show system'',
        ''execute batch start\<newline>set a 1\<newline>execute batch end\<newline>'',
        ''execute batch lastlog'', ''show system'']"
  by code_simp

text \<open>
  C6 asks for a commit-failure error when \<open>force\<close> is true, with no rollback. On the same
  device with \<open>force=True\<close> no rollback runs (nothing is sent after the reload of the
  running config) and the commit does raise, but the error is the NameError for
  \<open>exceptions\<close>, for the reason given under C2.
\<close>

theorem C6_forced_commit_raises_NameError:
  "fst (commit demo_externals None True
          (demo_device ['''', ''-5: set a 2'', ''set a 9'', '''', ''0: set a 1'', ''set a 1'']
             None [''set a 1''] [''set a 2'']))
     = Inl (NameError ''exceptions'')
   \<and> sent (snd (commit demo_externals None True
          (demo_device ['''', ''-5: set a 2'', ''set a 9'', '''', ''0: set a 1'', ''set a 1'']
             None [''set a 1''] [''set a 2''])))
     = [''execute batch start\<newline>set a 2\<newline>execute batch end\<newline>'',
        ''execute batch lastlog'', ''show system'']"
  by code_simp

lemma batch_script_scopes:
  "batch_script None t = ''execute batch start\<newline>'' @ t @ ''\<newline>execute batch end\<newline>''"
  "batch_script (Some ''global'') t
     = ''conf global\<newline>    execute batch start\<newline>'' @ t @ ''\<newline>execute batch end\<newline>''"
  "\<not> py_in ''global'' v \<Longrightarrow>
     batch_script (Some v) t
       = ''conf global\<newline>    execute batch start\<newline>conf vdom\<newline>  edit '' @ v @ ''\<newline>''
           @ t @ ''\<newline>execute batch end\<newline>''"
  "lastlog_command None = ''execute batch lastlog''"
  "lastlog_command (Some v) = ''conf global\<newline>    execute batch lastlog''"
  by (simp_all add: batch_script_def batch_prefix_def batch_vdom_def lastlog_command_def)

section \<open>C8 and C9: the batch script and the text of a retry\<close>

text \<open>
  C8 gives the batch script for no vdom, for the vdom \<open>global\<close> and for a named vdom, and
  lemma \<open>batch_script_scopes\<close> shows the code sends these, the last for a name that does
  not contain \<open>global\<close>. \<open>_execute\<close> tests \<open>'global' in self.vdom\<close>, which is true of
  every name that contains \<open>global\<close>: for the vdom \<open>global2\<close> the script has no
  \<open>conf vdom\<close> and \<open>edit global2\<close> lines and runs in the global scope, while
  \<open>load_config\<close>, which tests \<open>self.vdom == 'global'\<close>, reads the config of the vdom
  \<open>global2\<close>.
\<close>

theorem C8_vdom_name_containing_global:
  "sent (snd (priv_execute demo_externals (Some ''set a 2'')
          (demo_device ['''', ''0: set a 2''] (Some ''global2'') [''set a 1''] [''set a 2''])))
     = [''conf global\<newline>    execute batch start\<newline>set a 2\<newline>execute batch end\<newline>'',
        ''conf global\<newline>    execute batch lastlog'']
   \<and> load_command (Some ''global2'') ''system''
     = ''conf vdom\<newline>edit global2\<newline>show system\<newline>end''"
  by code_simp

text \<open>
  C9 asks that every retry without a text from the caller computes the commands anew from
  the running config as just reloaded. The loop stores the commands of the first retry in
  \<open>config_text\<close>, so every later retry finds a text and sends it again. Here the first
  attempt fails on both commands, the first retry sets \<open>a\<close> and fails on \<open>b\<close>, and the
  running config is reloaded with \<open>set a 2\<close> in it: the commands that lead to the
  candidate config are now \<open>set b 3\<close> alone, and the second retry sends \<open>set a 2\<close> and
  \<open>set b 3\<close> again.
\<close>

theorem C9_later_retries_send_first_retry_text:
  "(let X = demo_externals;
        s = demo_device
              ['''', ''-3: set a 2\<newline>-3: set b 3'', ''set a 1\<newline>set b 1'',
               '''', ''0: set a 2\<newline>-3: set b 3'', ''set a 2\<newline>set b 1'',
               '''', ''0: set a 2\<newline>0: set b 3'', ''set a 2\<newline>set b 3'']
              None [''set a 1'', ''set b 1''] [''set a 2'', ''set b 3''];
        first = priv_execute X None s;
        reloaded = priv_reload_config X True (snd first);
        retry1 = retry_scan X (projr (fst first)) (projr (fst first)) None (snd reloaded);
        retry2 = retry_scan X (fst (projr (fst retry1))) (fst (projr (fst retry1)))
                   (snd (projr (fst retry1))) (snd retry1)
    in compare_config X None (snd retry1) = ''set b 3''
       \<and> snd (projr (fst retry1)) = Some ''set a 2\<newline>set b 3''
       \<and> drop 6 (sent (snd retry2))
           = [''execute batch start\<newline>set a 2\<newline>set b 3\<newline>execute batch end\<newline>'',
              ''execute batch lastlog'', ''show system'']
       \<and> sent (snd (commit X None False s)) = sent (snd retry2))"
  by code_simp

end
